theory Spec2Isabelle
  imports Main "HOL-Library.Sublist"
begin

section \<open>The builder: data model\<close>

text \<open>
  The development follows \<^verbatim>\<open>packages/webdriverio/src/index.ts\<close>, the class
  \<^verbatim>\<open>AxeBuilder\<close>. JavaScript values of type \<^verbatim>\<open>string | string[]\<close> (a selector,
  the argument of \<^verbatim>\<open>withRules\<close>) are a datatype; \<^verbatim>\<open>Array.isArray(x) ? x : [x]\<close>
  is \<open>toArray\<close>.
\<close>

datatype StringOrArray = Str string | Arr "string list"

type_synonym Selector = StringOrArray

fun toArray :: "StringOrArray \<Rightarrow> string list" where
  "toArray (Arr xs) = xs"
| "toArray (Str s) = [s]"

text \<open>
  \<^verbatim>\<open>RunOptions\<close> of axe-core. The builder writes the fields \<^verbatim>\<open>runOnly\<close> and
  \<^verbatim>\<open>rules\<close>; every other field of an object handed to \<^verbatim>\<open>options\<close> is carried
  along unread. An absent field (\<^verbatim>\<open>undefined\<close>) is \<open>None\<close>.

  The \<^verbatim>\<open>rules\<close> object maps a rule id to \<^verbatim>\<open>{ enabled }\<close>. It is the map of its own
  properties, from a rule id to the value of \<^verbatim>\<open>enabled\<close> (the order in which
  JavaScript enumerates the keys is not part of the model), together with its
  prototype: \<^verbatim>\<open>Object.prototype\<close> for an object literal, or an object
  \<^verbatim>\<open>{ enabled: e }\<close> once the prototype has been replaced.
\<close>

datatype Prototype = ObjectPrototype | EnabledObject bool

record RuleObject =
  prototype :: Prototype
  ownProperties :: "string \<rightharpoonup> bool"

datatype RunOnly =
    RunOnlyObject (runOnly_type: string) (runOnly_values: "string list")
  | RunOnlyArray "string list"
  | RunOnlyString string

record RunOptions =
  runOnly :: "RunOnly option"
  rules :: "RuleObject option"
  otherOptions :: "(string \<times> string) list"

text \<open>
  Objects live in a store and are named by references, because the builder keeps the
  \<^emph>\<open>reference\<close> of the object given to \<^verbatim>\<open>options\<close> and later writes through it,
  and because every configuration method returns \<^verbatim>\<open>this\<close>. The field \<open>option\<close> of a
  builder is the reference of its \<^verbatim>\<open>RunOptions\<close> object. (The field \<^verbatim>\<open>client\<close> is
  the remote browser; its state is the record \<open>client\<close> further down.) The field
  \<^verbatim>\<open>includes\<close> and the method \<^verbatim>\<open>include\<close> carry a prime, their names being keywords
  of Isabelle.
\<close>

type_synonym ref = nat

record AxeBuilder =
  axeSource :: string
  includes' :: "Selector list"
  excludes :: "Selector list"
  option :: ref
  disableFrameSelectors :: "string list"
  legacyMode :: bool

record heap =
  builder :: "ref \<Rightarrow> AxeBuilder"
  runOptions :: "ref \<Rightarrow> RunOptions"

definition setBuilder :: "ref \<Rightarrow> AxeBuilder \<Rightarrow> heap \<Rightarrow> heap" where
  "setBuilder this b h = h\<lparr>builder := (builder h)(this := b)\<rparr>"

definition setRunOptions :: "ref \<Rightarrow> RunOptions \<Rightarrow> heap \<Rightarrow> heap" where
  "setRunOptions r opts h = h\<lparr>runOptions := (runOptions h)(r := opts)\<rparr>"

section \<open>Configuration methods\<close>

text \<open>
  Each method takes the receiver \<open>this\<close> and the store, and returns the reference it
  returns in the source (\<^verbatim>\<open>return this\<close>) with the updated store.
  \<^verbatim>\<open>cssesc\<close> is an external package: it is a parameter of \<open>disableFrame\<close>.
\<close>

definition disableFrame :: "(string \<Rightarrow> string) \<Rightarrow> string \<Rightarrow> ref \<Rightarrow> heap \<Rightarrow> ref \<times> heap" where
  "disableFrame cssesc selector this h =
     (let b = builder h this in
      (this, setBuilder this
               (b\<lparr>disableFrameSelectors := disableFrameSelectors b @ [cssesc selector]\<rparr>) h))"

definition include' :: "Selector \<Rightarrow> ref \<Rightarrow> heap \<Rightarrow> ref \<times> heap" where
  "include' selector this h =
     (let b = builder h this in
      (this, setBuilder this (b\<lparr>includes' := includes' b @ [Arr (toArray selector)]\<rparr>) h))"

definition exclude :: "Selector \<Rightarrow> ref \<Rightarrow> heap \<Rightarrow> ref \<times> heap" where
  "exclude selector this h =
     (let b = builder h this in
      (this, setBuilder this (b\<lparr>excludes := excludes b @ [Arr (toArray selector)]\<rparr>) h))"

text \<open>\<^verbatim>\<open>this.option = options\<close>: the reference is stored, nothing is copied.\<close>

definition options :: "ref \<Rightarrow> ref \<Rightarrow> heap \<Rightarrow> ref \<times> heap" where
  "options opts this h = (this, setBuilder this ((builder h this)\<lparr>option := opts\<rparr>) h)"

text \<open>\<^verbatim>\<open>this.option.runOnly = { type, values }\<close>: a write through the stored reference.\<close>

definition withRules :: "StringOrArray \<Rightarrow> ref \<Rightarrow> heap \<Rightarrow> ref \<times> heap" where
  "withRules rs this h =
     (let r = option (builder h this) in
      (this, setRunOptions r
               ((runOptions h r)\<lparr>runOnly := Some (RunOnlyObject ''rule'' (toArray rs))\<rparr>) h))"

definition withTags :: "StringOrArray \<Rightarrow> ref \<Rightarrow> heap \<Rightarrow> ref \<times> heap" where
  "withTags tags this h =
     (let r = option (builder h this) in
      (this, setRunOptions r
               ((runOptions h r)\<lparr>runOnly := Some (RunOnlyObject ''tag'' (toArray tags))\<rparr>) h))"

text \<open>
  The object literal \<^verbatim>\<open>{}\<close>, and the assignment \<^verbatim>\<open>rules[rule] = { enabled: e }\<close> to an
  object that inherits from \<^verbatim>\<open>Object.prototype\<close>. The key \<^verbatim>\<open>__proto__\<close> is the accessor
  property of \<^verbatim>\<open>Object.prototype\<close>: its setter makes the assigned object the prototype
  and creates no own property. Every other key is an ordinary assignment, which
  creates the own property or overwrites it.
\<close>

definition emptyObject :: RuleObject where
  "emptyObject = \<lparr>prototype = ObjectPrototype, ownProperties = Map.empty\<rparr>"

definition assignRule :: "string \<Rightarrow> bool \<Rightarrow> RuleObject \<Rightarrow> RuleObject" where
  "assignRule rule e obj =
     (if rule = ''__proto__'' then obj\<lparr>prototype := EnabledObject e\<rparr>
      else obj\<lparr>ownProperties := (ownProperties obj)(rule \<mapsto> e)\<rparr>)"

text \<open>
  \<^verbatim>\<open>this.option.rules = {}\<close>, then \<^verbatim>\<open>this.option.rules[rule] = { enabled: false }\<close>
  for each rule, in order.
\<close>

definition disableRules :: "StringOrArray \<Rightarrow> ref \<Rightarrow> heap \<Rightarrow> ref \<times> heap" where
  "disableRules rs this h =
     (let r = option (builder h this) in
      (this, setRunOptions r
               ((runOptions h r)\<lparr>rules :=
                  Some (foldl (\<lambda>obj rule. assignRule rule False obj) emptyObject (toArray rs))\<rparr>) h))"

text \<open>
  \<^verbatim>\<open>setLegacyMode(legacyMode = true)\<close>: an omitted argument is \<open>None\<close> and takes the
  default.
\<close>

definition setLegacyMode :: "bool option \<Rightarrow> ref \<Rightarrow> heap \<Rightarrow> ref \<times> heap" where
  "setLegacyMode arg this h =
     (let legacy = (case arg of None \<Rightarrow> True | Some v \<Rightarrow> v) in
      (this, setBuilder this ((builder h this)\<lparr>legacyMode := legacy\<rparr>) h))"

section \<open>The composed script and the frame selectors\<close>

text \<open>The getter \<^verbatim>\<open>script\<close>: a template literal, with its line breaks and indentation.\<close>

definition script :: "AxeBuilder \<Rightarrow> string" where
  "script b =
     ''\<newline>      '' @ axeSource b @
     ''\<newline>      axe.configure({\<newline>        '' @
     (if legacyMode b then '''' else ''allowedOrigins: ['<unsafe_all_origins>'],'') @
     ''\<newline>        branding: { application: 'webdriverio' }\<newline>      })\<newline>      ''"

definition iframeSelector :: "AxeBuilder \<Rightarrow> string" where
  "iframeSelector b =
     foldl (\<lambda>selector disableFrameSelector. selector @ '':not('' @ disableFrameSelector @ '')'')
       ''iframe'' (disableFrameSelectors b)"

definition frameSelector :: "AxeBuilder \<Rightarrow> string" where
  "frameSelector b =
     foldl (\<lambda>selector disableFrameSelector. selector @ '':not('' @ disableFrameSelector @ '')'')
       ''frame'' (disableFrameSelectors b)"

section \<open>Errors, results and the remote browser\<close>

text \<open>
  A JavaScript error is its \<^verbatim>\<open>name\<close> and \<^verbatim>\<open>message\<close>. \<^verbatim>\<open>new Error(m)\<close> is
  \<open>newError m\<close>; a failed \<^verbatim>\<open>assert(v, m)\<close> raises \<open>assertionError m\<close>. A computation
  that may raise returns \<open>Inl\<close> of the error.
\<close>

datatype error = Error (errorName: string) (message: string)

definition newError :: "string \<Rightarrow> error" where
  "newError m = Error ''Error'' m"

definition assertionError :: "string \<Rightarrow> error" where
  "assertionError m = Error ''AssertionError'' m"

datatype PartialResult = PartialResult string

text \<open>\<^verbatim>\<open>PartialResults\<close>: the failure marker \<^verbatim>\<open>null\<close> is \<open>None\<close>.\<close>

type_synonym PartialResults = "PartialResult option list"

datatype AxeResults = AxeResults string

record ContextObject =
  contextInclude :: "Selector list option"
  contextExclude :: "Selector list"

type_synonym element = string

type_synonym handle = string

text \<open>
  Every command sent to the browser, and every call of a helper of \<^verbatim>\<open>./utils\<close> (which
  run a script in the current frame), with its arguments.
\<close>

datatype call =
    AxeSourceInject string
  | AxeGetFrameContext ContextObject
  | AxeRunPartial ContextObject RunOptions
  | AxeFinishRun string PartialResults RunOptions
  | AxeRunLegacy ContextObject RunOptions
  | Execute string
  | Find Selector
  | FindAll string
  | IsExisting element
  | SwitchToFrame element
  | SwitchToParentFrame
  | GetWindowHandle
  | CreateWindow string
  | SwitchToWindow handle
  | Url string
  | CloseWindow

text \<open>
  The state of the remote session, as the WebDriver protocol defines it: the current
  browsing context is the stack \<open>frames\<close> of the frame elements entered from the
  top-level document (innermost first, \<open>[]\<close> at the top level); \<open>window\<close> is the
  active window handle and \<open>windows\<close> the open ones. \<open>calls\<close> is the log of what was
  sent, each call with the browsing context it was sent in.
\<close>

record client =
  frames :: "element list"
  window :: handle
  windows :: "handle list"
  calls :: "(element list \<times> call) list"

definition send :: "call \<Rightarrow> client \<Rightarrow> client" where
  "send c s = s\<lparr>calls := calls s @ [(frames s, c)]\<rparr>"

text \<open>
  Each command takes its response as first argument: \<open>Some e\<close> or \<open>Inl e\<close> when the
  command is rejected with \<open>e\<close>. A rejected command leaves the session as it was.
  \<^verbatim>\<open>switchToFrame\<close> enters a frame of the current document;
  \<^verbatim>\<open>switchToParentFrame\<close> leaves the current frame for its parent and does nothing at
  the top level; \<^verbatim>\<open>switchToWindow\<close> selects a window and its top-level document;
  \<^verbatim>\<open>createWindow\<close> opens a window without selecting it; \<^verbatim>\<open>closeWindow\<close> closes the
  active window.
\<close>

definition switchToFrame :: "error option \<Rightarrow> element \<Rightarrow> client \<Rightarrow> (error + unit) \<times> client" where
  "switchToFrame response el s =
     (let s' = send (SwitchToFrame el) s in
      case response of
        Some e \<Rightarrow> (Inl e, s')
      | None \<Rightarrow> (Inr (), s'\<lparr>frames := el # frames s'\<rparr>))"

fun parentFrame :: "element list \<Rightarrow> element list" where
  "parentFrame [] = []"
| "parentFrame (el # outer) = outer"

definition switchToParentFrame :: "error option \<Rightarrow> client \<Rightarrow> (error + unit) \<times> client" where
  "switchToParentFrame response s =
     (let s' = send SwitchToParentFrame s in
      case response of
        Some e \<Rightarrow> (Inl e, s')
      | None \<Rightarrow> (Inr (), s'\<lparr>frames := parentFrame (frames s')\<rparr>))"

definition find :: "error + element option \<Rightarrow> Selector \<Rightarrow> client \<Rightarrow> (error + element option) \<times> client" where
  "find response selector s = (response, send (Find selector) s)"

definition findAll :: "error option \<Rightarrow> string \<Rightarrow> client \<Rightarrow> (error + unit) \<times> client" where
  "findAll response selector s =
     (case response of Some e \<Rightarrow> Inl e | None \<Rightarrow> Inr (), send (FindAll selector) s)"

definition isExisting :: "error + bool \<Rightarrow> element \<Rightarrow> client \<Rightarrow> (error + bool) \<times> client" where
  "isExisting response el s = (response, send (IsExisting el) s)"

definition execute :: "error option \<Rightarrow> string \<Rightarrow> client \<Rightarrow> (error + unit) \<times> client" where
  "execute response source s =
     (case response of Some e \<Rightarrow> Inl e | None \<Rightarrow> Inr (), send (Execute source) s)"

definition getWindowHandle :: "error option \<Rightarrow> client \<Rightarrow> (error + handle) \<times> client" where
  "getWindowHandle response s =
     (case response of Some e \<Rightarrow> Inl e | None \<Rightarrow> Inr (window s), send GetWindowHandle s)"

definition createWindow :: "error + handle option \<Rightarrow> string \<Rightarrow> client \<Rightarrow> (error + handle option) \<times> client" where
  "createWindow response kind s =
     (let s' = send (CreateWindow kind) s in
      case response of
        Inl e \<Rightarrow> (Inl e, s')
      | Inr None \<Rightarrow> (Inr None, s')
      | Inr (Some w) \<Rightarrow> (Inr (Some w), s'\<lparr>windows := windows s' @ [w]\<rparr>))"

definition switchToWindow :: "error option \<Rightarrow> handle \<Rightarrow> client \<Rightarrow> (error + unit) \<times> client" where
  "switchToWindow response w s =
     (let s' = send (SwitchToWindow w) s in
      case response of
        Some e \<Rightarrow> (Inl e, s')
      | None \<Rightarrow> (Inr (), s'\<lparr>window := w, frames := []\<rparr>))"

definition url :: "error option \<Rightarrow> string \<Rightarrow> client \<Rightarrow> (error + unit) \<times> client" where
  "url response address s =
     (case response of Some e \<Rightarrow> Inl e | None \<Rightarrow> Inr (), send (Url address) s)"

definition closeWindow :: "error option \<Rightarrow> client \<Rightarrow> (error + unit) \<times> client" where
  "closeWindow response s =
     (let s' = send CloseWindow s in
      case response of
        Some e \<Rightarrow> (Inl e, s')
      | None \<Rightarrow> (Inr (), s'\<lparr>windows := removeAll (window s') (windows s')\<rparr>))"

text \<open>
  The helpers of \<^verbatim>\<open>./utils\<close> that talk to the engine. They are defined outside
  \<^verbatim>\<open>index.ts\<close>: what they return is a parameter, and they are taken to leave the
  browsing context and the windows alone.
\<close>

definition axeSourceInject :: "error + bool \<Rightarrow> string \<Rightarrow> client \<Rightarrow> (error + bool) \<times> client" where
  "axeSourceInject response source s = (response, send (AxeSourceInject source) s)"

definition axeGetFrameContext :: "error option \<Rightarrow> ContextObject \<Rightarrow> client \<Rightarrow> (error + unit) \<times> client" where
  "axeGetFrameContext response context s =
     (case response of Some e \<Rightarrow> Inl e | None \<Rightarrow> Inr (), send (AxeGetFrameContext context) s)"

definition axeRunPartial ::
  "error + PartialResult \<Rightarrow> ContextObject \<Rightarrow> RunOptions \<Rightarrow> client \<Rightarrow> (error + PartialResult) \<times> client" where
  "axeRunPartial response context opts s = (response, send (AxeRunPartial context opts) s)"

definition axeFinishRun ::
  "(string \<Rightarrow> PartialResults \<Rightarrow> RunOptions \<Rightarrow> error + AxeResults) \<Rightarrow>
   string \<Rightarrow> PartialResults \<Rightarrow> RunOptions \<Rightarrow> client \<Rightarrow> (error + AxeResults) \<times> client" where
  "axeFinishRun engine source partials opts s =
     (engine source partials opts, send (AxeFinishRun source partials opts) s)"

definition axeRunLegacy ::
  "(ContextObject \<Rightarrow> RunOptions \<Rightarrow> error + AxeResults) \<Rightarrow>
   ContextObject \<Rightarrow> RunOptions \<Rightarrow> client \<Rightarrow> (error + AxeResults) \<times> client" where
  "axeRunLegacy engine context opts s = (engine context opts, send (AxeRunLegacy context opts) s)"

section \<open>The Partial-Result Collector\<close>

text \<open>
  What the browser and the engine answer during one run of the collector is a finite
  tree. A \<open>frame\<close> holds the answers given inside one frame: whether
  \<^verbatim>\<open>axeGetFrameContext\<close> is rejected, the frame contexts it returns, the answer of
  \<^verbatim>\<open>axeRunPartial\<close>, and the answer to the closing \<^verbatim>\<open>switchToParentFrame\<close>. A
  \<open>child\<close> is one returned \<^verbatim>\<open>{ frameSelector, frameContext }\<close> (the fields
  \<open>fcSelector\<close> and \<open>fcContext\<close>) with the answers to the
  commands of its loop iteration: \<^verbatim>\<open>client.$\<close> (rejected, a falsy value, or an
  element), \<^verbatim>\<open>switchToFrame\<close>, \<^verbatim>\<open>axeSourceInject\<close>, the answers inside the frame,
  and the answer to the \<^verbatim>\<open>switchToParentFrame\<close> of the \<^verbatim>\<open>catch\<close> block.
\<close>

datatype frame =
  Frame (getFrameContextError: "error option") (frameContexts: "child list")
        (partialResult: "error + PartialResult") (leaveError: "error option")
and child =
  Child (fcSelector: Selector) (fcContext: ContextObject)
        (found: "error + element option") (switchError: "error option")
        (injected: "error + bool") (inside: frame) (restoreError: "error option")

text \<open>A selector inside a template literal: an array is joined with commas.\<close>

fun joinComma :: "string list \<Rightarrow> string" where
  "joinComma [] = []"
| "joinComma [x] = x"
| "joinComma (x # y # ys) = x @ '','' @ joinComma (y # ys)"

fun selectorString :: "Selector \<Rightarrow> string" where
  "selectorString (Str s) = s"
| "selectorString (Arr xs) = joinComma xs"

text \<open>
  \<open>runPartialRecursive\<close> is the method; \<open>forFrameContexts\<close> is its \<^verbatim>\<open>for\<close> loop over
  the remaining frame contexts, with the array \<^verbatim>\<open>partials\<close> built so far;
  \<open>tryFrameContext\<close> is the \<^verbatim>\<open>try\<close> block of one iteration, returning what it would
  push. The \<^verbatim>\<open>catch\<close> block ignores the error it caught.
\<close>

fun runPartialRecursive ::
      "ref \<Rightarrow> heap \<Rightarrow> frame \<Rightarrow> ContextObject \<Rightarrow> client \<Rightarrow> (error + PartialResults) \<times> client"
  and forFrameContexts ::
      "ref \<Rightarrow> heap \<Rightarrow> child list \<Rightarrow> PartialResults \<Rightarrow> client \<Rightarrow> (error + PartialResults) \<times> client"
  and tryFrameContext ::
      "ref \<Rightarrow> heap \<Rightarrow> child \<Rightarrow> client \<Rightarrow> (error + PartialResults) \<times> client"
where
  "runPartialRecursive this h (Frame discovery children own leave) context s =
     (case axeGetFrameContext discovery context s of
        (Inl e, s1) \<Rightarrow> (Inl e, s1)
      | (Inr _, s1) \<Rightarrow>
          (case axeRunPartial own context (runOptions h (option (builder h this))) s1 of
             (Inl e, s2) \<Rightarrow> (Inl e, s2)
           | (Inr p, s2) \<Rightarrow>
               (case forFrameContexts this h children [Some p] s2 of
                  (Inl e, s3) \<Rightarrow> (Inl e, s3)
                | (Inr partials, s3) \<Rightarrow>
                    (case switchToParentFrame leave s3 of
                       (Inl e, s4) \<Rightarrow> (Inl e, s4)
                     | (Inr _, s4) \<Rightarrow> (Inr partials, s4)))))"
| "forFrameContexts this h [] partials s = (Inr partials, s)"
| "forFrameContexts this h (c # cs) partials s =
     (case tryFrameContext this h c s of
        (Inr pushed, s1) \<Rightarrow> forFrameContexts this h cs (partials @ pushed) s1
      | (Inl caught, s1) \<Rightarrow>
          (case switchToParentFrame (restoreError c) s1 of
             (Inl e, s2) \<Rightarrow> (Inl e, s2)
           | (Inr _, s2) \<Rightarrow> forFrameContexts this h cs (partials @ [None]) s2))"
| "tryFrameContext this h (Child selector context lookup switch injection sub restore) s =
     (case find lookup selector s of
        (Inl e, s1) \<Rightarrow> (Inl e, s1)
      | (Inr None, s1) \<Rightarrow>
          (Inl (assertionError (''Expect frame of '' @ [CHR 0x22] @ selectorString selector @
                                [CHR 0x22] @ '' to be defined'')), s1)
      | (Inr (Some el), s1) \<Rightarrow>
          (case switchToFrame switch el s1 of
             (Inl e, s2) \<Rightarrow> (Inl e, s2)
           | (Inr _, s2) \<Rightarrow>
               (case axeSourceInject injection (script (builder h this)) s2 of
                  (Inl e, s3) \<Rightarrow> (Inl e, s3)
                | (Inr _, s3) \<Rightarrow> runPartialRecursive this h sub context s3)))"

section \<open>The Frame Injector and the Legacy Runner\<close>

text \<open>
  The answers during \<open>inject\<close>, again as a finite tree. A \<open>document\<close> answers
  \<^verbatim>\<open>setBrowsingContext\<close>, \<^verbatim>\<open>client.execute\<close> and the two \<^verbatim>\<open>client.$$\<close> queries
  (rejected, or the elements found); an \<open>iframe\<close> is one element found, with the
  answers to \<^verbatim>\<open>isExisting\<close>, the answers inside it, and the answer to the
  \<^verbatim>\<open>switchToParentFrame\<close> that follows the recursive call.
\<close>

datatype document =
  Document (enterError: "error option") (executeError: "error option")
           (framesError: "error option") (frameElements: "iframe list")
           (iframesError: "error option") (iframeElements: "iframe list")
and iframe =
  Iframe (elementId: element) (existing: "error + bool") (content: document)
         (backError: "error option")

text \<open>\<^verbatim>\<open>setBrowsingContext(id)\<close>: an element is truthy, \<^verbatim>\<open>null\<close> is \<open>None\<close>.\<close>

definition setBrowsingContext :: "error option \<Rightarrow> element option \<Rightarrow> client \<Rightarrow> (error + unit) \<times> client" where
  "setBrowsingContext response id' s =
     (case id' of
        Some el \<Rightarrow> switchToFrame response el s
      | None \<Rightarrow> switchToParentFrame response s)"

text \<open>
  \<open>inject\<close> is the method, \<open>forIframes\<close> its loop and \<open>tryIframe\<close> the \<^verbatim>\<open>try\<close> block
  of one iteration (\<^verbatim>\<open>continue\<close> ends the block normally). The helper
  \<^verbatim>\<open>logOrRethrowError\<close> of \<^verbatim>\<open>./utils\<close> is the parameter \<open>rethrow\<close>: \<open>Some e\<close> when it
  raises \<open>e\<close>, \<open>None\<close> when it only logs.
\<close>

fun inject ::
      "ref \<Rightarrow> heap \<Rightarrow> (error \<Rightarrow> error option) \<Rightarrow> document \<Rightarrow> element option \<Rightarrow> client \<Rightarrow>
       (error + unit) \<times> client"
  and forIframes ::
      "ref \<Rightarrow> heap \<Rightarrow> (error \<Rightarrow> error option) \<Rightarrow> iframe list \<Rightarrow> client \<Rightarrow> (error + unit) \<times> client"
  and tryIframe ::
      "ref \<Rightarrow> heap \<Rightarrow> (error \<Rightarrow> error option) \<Rightarrow> iframe \<Rightarrow> client \<Rightarrow> (error + unit) \<times> client"
where
  "inject this h rethrow (Document enter exec framesErr found1 iframesErr found2) browsingContext s =
     (case setBrowsingContext enter browsingContext s of
        (Inl e, s1) \<Rightarrow> (Inl e, s1)
      | (Inr _, s1) \<Rightarrow>
          (case execute exec (script (builder h this)) s1 of
             (Inl e, s2) \<Rightarrow> (Inl e, s2)
           | (Inr _, s2) \<Rightarrow>
               (case findAll framesErr (frameSelector (builder h this)) s2 of
                  (Inl e, s3) \<Rightarrow> (Inl e, s3)
                | (Inr _, s3) \<Rightarrow>
                    (case findAll iframesErr (iframeSelector (builder h this)) s3 of
                       (Inl e, s4) \<Rightarrow> (Inl e, s4)
                     | (Inr _, s4) \<Rightarrow> forIframes this h rethrow (found1 @ found2) s4))))"
| "forIframes this h rethrow [] s = (Inr (), s)"
| "forIframes this h rethrow (f # fs) s =
     (case tryIframe this h rethrow f s of
        (Inr _, s1) \<Rightarrow> forIframes this h rethrow fs s1
      | (Inl caught, s1) \<Rightarrow>
          (case rethrow caught of
             Some e \<Rightarrow> (Inl e, s1)
           | None \<Rightarrow> forIframes this h rethrow fs s1))"
| "tryIframe this h rethrow (Iframe el exists doc back) s =
     (case isExisting exists el s of
        (Inl e, s1) \<Rightarrow> (Inl e, s1)
      | (Inr present, s1) \<Rightarrow>
          if \<not> present then (Inr (), s1)
          else (case inject this h rethrow doc (Some el) s1 of
                  (Inl e, s2) \<Rightarrow> (Inl e, s2)
                | (Inr _, s2) \<Rightarrow> switchToParentFrame back s2))"

section \<open>The environment of one analysis\<close>

text \<open>
  Everything \<^verbatim>\<open>analyze\<close> receives from outside its own code: the helpers
  \<^verbatim>\<open>normalizeContext\<close> and \<^verbatim>\<open>logOrRethrowError\<close> of \<^verbatim>\<open>./utils\<close>, the answer to the
  first \<^verbatim>\<open>axeSourceInject\<close>, the answers met by the collector and by the injector,
  what the engine's \<^verbatim>\<open>run\<close> and \<^verbatim>\<open>finishRun\<close> return for given arguments, and the
  answers to the window commands of \<open>finishRun\<close>.
\<close>

record environment =
  normalizeContext :: "Selector list \<Rightarrow> Selector list \<Rightarrow> string list \<Rightarrow> ContextObject"
  logOrRethrowError :: "error \<Rightarrow> error option"
  probe :: "error + bool"
  topFrame :: frame
  topDocument :: document
  engineRun :: "ContextObject \<Rightarrow> RunOptions \<Rightarrow> error + AxeResults"
  getWindowHandleError :: "error option"
  createWindowResult :: "error + handle option"
  switchToNewWindowError :: "error option"
  urlError :: "error option"
  engineFinishRun :: "string \<Rightarrow> PartialResults \<Rightarrow> RunOptions \<Rightarrow> error + AxeResults"
  closeWindowError :: "error option"
  switchBackError :: "error option"

definition runLegacy ::
  "environment \<Rightarrow> ref \<Rightarrow> heap \<Rightarrow> ContextObject \<Rightarrow> client \<Rightarrow> (error + AxeResults) \<times> client" where
  "runLegacy env this h context s =
     (case inject this h (logOrRethrowError env) (topDocument env) None s of
        (Inl e, s1) \<Rightarrow> (Inl e, s1)
      | (Inr _, s1) \<Rightarrow>
          axeRunLegacy (engineRun env) context (runOptions h (option (builder h this))) s1)"

section \<open>The Result Finisher\<close>

text \<open>
  \<open>enterNewWindow\<close> is the body of the \<^verbatim>\<open>try\<close> block of \<open>finishRun\<close>. The assertion on
  \<^verbatim>\<open>newWindow.handle\<close> fails on an absent handle and on the empty string, both falsy.
\<close>

definition enterNewWindow :: "environment \<Rightarrow> handle \<Rightarrow> client \<Rightarrow> (error + unit) \<times> client" where
  "enterNewWindow env newHandle s =
     (case switchToWindow (switchToNewWindowError env) newHandle s of
        (Inl e, s1) \<Rightarrow> (Inl e, s1)
      | (Inr _, s1) \<Rightarrow> url (urlError env) ''about:blank'' s1)"

definition finishRun ::
  "environment \<Rightarrow> ref \<Rightarrow> heap \<Rightarrow> PartialResults \<Rightarrow> client \<Rightarrow> (error + AxeResults) \<times> client" where
  "finishRun env this h partials s =
     (case getWindowHandle (getWindowHandleError env) s of
        (Inl e, s1) \<Rightarrow> (Inl e, s1)
      | (Inr win, s1) \<Rightarrow>
          (case createWindow (createWindowResult env) ''tab'' s1 of
             (Inl e, s2) \<Rightarrow> (Inl e, s2)
           | (Inr newWindow, s2) \<Rightarrow>
               if newWindow = None \<or> newWindow = Some []
               then (Inl (assertionError ''Please make sure that you have popup blockers disabled.''), s2)
               else
                 (case enterNewWindow env (the newWindow) s2 of
                    (Inl caught, s3) \<Rightarrow>
                      (Inl (newError
                         (''switchToWindow failed. Are you using updated browser drivers? \<newline>Driver reported:\<newline>''
                          @ message caught)), s3)
                  | (Inr _, s3) \<Rightarrow>
                      (case axeFinishRun (engineFinishRun env) (axeSource (builder h this)) partials
                              (runOptions h (option (builder h this))) s3 of
                         (Inl e, s4) \<Rightarrow> (Inl e, s4)
                       | (Inr res, s4) \<Rightarrow>
                           (case closeWindow (closeWindowError env) s4 of
                              (Inl e, s5) \<Rightarrow> (Inl e, s5)
                            | (Inr _, s5) \<Rightarrow>
                                (case switchToWindow (switchBackError env) win s5 of
                                   (Inl e, s6) \<Rightarrow> (Inl e, s6)
                                 | (Inr _, s6) \<Rightarrow> (Inr res, s6)))))))"

section \<open>The orchestrator\<close>

definition troubleshooting :: string where
  "troubleshooting =
     ''\<newline> Please check out https://github.com/dequelabs/axe-core-npm/blob/develop/packages/webdriverio/error-handling.md''"

definition analyzePromise ::
  "environment \<Rightarrow> ref \<Rightarrow> heap \<Rightarrow> client \<Rightarrow> (error + AxeResults) \<times> client" where
  "analyzePromise env this h s =
     (let context = normalizeContext env (includes' (builder h this)) (excludes (builder h this))
                      (disableFrameSelectors (builder h this)) in
      case axeSourceInject (probe env) (axeSource (builder h this)) s of
        (Inl e, s1) \<Rightarrow> (Inl e, s1)
      | (Inr runPartialSupported, s1) \<Rightarrow>
          if \<not> runPartialSupported \<or> legacyMode (builder h this)
          then runLegacy env this h context s1
          else
            (case runPartialRecursive this h (topFrame env) context s1 of
               (Inl e, s2) \<Rightarrow> (Inl e, s2)
             | (Inr partials, s2) \<Rightarrow>
                 (case finishRun env this h partials s2 of
                    (Inl caught, s3) \<Rightarrow> (Inl (newError (message caught @ troubleshooting)), s3)
                  | (Inr res, s3) \<Rightarrow> (Inr res, s3))))"

text \<open>
  \<open>analyze\<close>: the promise it returns is settled by \<^verbatim>\<open>resolve\<close> or \<^verbatim>\<open>reject\<close> of the
  wrapping \<^verbatim>\<open>new Promise\<close>, or by neither; \<open>Resolved None\<close> stands for a promise
  resolved with no value. The callback is an observer: \<open>callback\<close>
  says whether one was supplied, and \<open>callbackCalls\<close> lists the arguments it was called
  with (\<^verbatim>\<open>null\<close> is \<open>None\<close>); it is taken to return normally.
\<close>

datatype promise = Pending | Resolved "AxeResults option" | Rejected error

record analysis =
  promise :: promise
  callbackCalls :: "(string option \<times> AxeResults option) list"

definition analyze :: "environment \<Rightarrow> bool \<Rightarrow> ref \<Rightarrow> heap \<Rightarrow> client \<Rightarrow> analysis \<times> client" where
  "analyze env callback this h s =
     (case analyzePromise env this h s of
        (Inr results, s') \<Rightarrow>
          (\<lparr>promise = Resolved (Some results),
            callbackCalls = (if callback then [(None, Some results)] else [])\<rparr>, s')
      | (Inl err, s') \<Rightarrow>
          (if callback
           then \<lparr>promise = Pending, callbackCalls = [(Some (message err), None)]\<rparr>
           else \<lparr>promise = Rejected err, callbackCalls = []\<rparr>, s'))"

section \<open>Sequences of selection calls\<close>





section \<open>Notions used to state the properties\<close>

text \<open>
  \<open>subtree\<close> is the recursive call of the collector on the frame of a child, and
  \<open>scanFailed\<close> says that the \<^verbatim>\<open>try\<close> block of the child raises: the frame lookup is
  rejected, the looked-up frame is not defined, the switch into the frame is
  rejected, the injection is rejected, or the recursive call raises. \<open>childSequence\<close>
  is what the child contributes according to the specification: one \<^verbatim>\<open>null\<close> when
  its scan failed, the sequence of its subtree otherwise. The state \<open>t\<close> is the state
  the recursive call is started in.
\<close>

definition subtree :: "ref \<Rightarrow> heap \<Rightarrow> child \<Rightarrow> client \<Rightarrow> error + PartialResults" where
  "subtree this h c t = fst (runPartialRecursive this h (inside c) (fcContext c) t)"

definition scanFailed :: "ref \<Rightarrow> heap \<Rightarrow> child \<Rightarrow> client \<Rightarrow> bool" where
  "scanFailed this h c t =
     (case found c of
        Inl e \<Rightarrow> True
      | Inr None \<Rightarrow> True
      | Inr (Some el) \<Rightarrow>
          (case switchError c of
             Some e \<Rightarrow> True
           | None \<Rightarrow>
               (case injected c of
                  Inl e \<Rightarrow> True
                | Inr v \<Rightarrow> (case subtree this h c t of Inl e \<Rightarrow> True | Inr partials \<Rightarrow> False))))"

definition childSequence :: "ref \<Rightarrow> heap \<Rightarrow> child \<Rightarrow> client \<Rightarrow> PartialResults" where
  "childSequence this h c t =
     (if scanFailed this h c t then [None]
      else (case subtree this h c t of Inr partials \<Rightarrow> partials | Inl e \<Rightarrow> [None]))"

text \<open>
  The calls sent between two states of the session, and the calls each component may
  send: the collector, the injector of the legacy path, and the finisher.
\<close>

definition sent :: "client \<Rightarrow> client \<Rightarrow> (element list \<times> call) list" where
  "sent s s' = drop (length (calls s)) (calls s')"

fun collectorCall :: "ref \<Rightarrow> heap \<Rightarrow> call \<Rightarrow> bool" where
  "collectorCall this h (AxeGetFrameContext context) = True"
| "collectorCall this h (AxeRunPartial context opts) = (opts = runOptions h (option (builder h this)))"
| "collectorCall this h (Find selector) = True"
| "collectorCall this h (SwitchToFrame el) = True"
| "collectorCall this h (AxeSourceInject source) = (source = script (builder h this))"
| "collectorCall this h SwitchToParentFrame = True"
| "collectorCall this h c = False"



text \<open>
  \<open>logs P s s'\<close>: from \<open>s\<close> to \<open>s'\<close> the log is extended by calls that satisfy \<open>P\<close>.
  \<open>grows P s s'\<close>: moreover the windows are untouched.
\<close>

definition logs :: "(call \<Rightarrow> bool) \<Rightarrow> client \<Rightarrow> client \<Rightarrow> bool" where
  "logs P s s' = (\<exists>new. calls s' = calls s @ new \<and> (\<forall>x \<in> set new. P (snd x)))"

definition grows :: "(call \<Rightarrow> bool) \<Rightarrow> client \<Rightarrow> client \<Rightarrow> bool" where
  "grows P s s' = (window s' = window s \<and> windows s' = windows s \<and> logs P s s')"


section \<open>Example inputs\<close>

text \<open>
  A session at the top level of its main window, a store with one builder (reference
  \<open>0\<close>, partial mode, options object \<open>1\<close>, empty), and the context of the whole
  document.
\<close>

definition session0 :: client where
  "session0 = \<lparr>frames = [], window = ''main'', windows = [''main''], calls = []\<rparr>"

definition heap0 :: heap where
  "heap0 =
     \<lparr>builder = (\<lambda>r. \<lparr>axeSource = ''AXE'', includes' = [], excludes = [], option = 1,
                       disableFrameSelectors = [], legacyMode = False\<rparr>),
      runOptions = (\<lambda>r. \<lparr>runOnly = None, rules = None, otherOptions = []\<rparr>)\<rparr>"

definition context0 :: ContextObject where
  "context0 = \<lparr>contextInclude = None, contextExclude = []\<rparr>"

text \<open>
  \<open>leaf n\<close> is a frame without child frames whose partial run returns the result
  \<open>n\<close>. \<open>entered sel fr\<close> is a child frame that is found, entered and injected, with
  the answers \<open>fr\<close> inside. \<open>removed sel\<close> is a child frame that has left the page
  when the collector reaches it: the browser rejects the switch into it.
\<close>

definition leaf :: "string \<Rightarrow> frame" where
  "leaf n = Frame None [] (Inr (PartialResult n)) None"

definition entered :: "string \<Rightarrow> frame \<Rightarrow> child" where
  "entered sel fr = Child (Str sel) context0 (Inr (Some sel)) None (Inr True) fr None"

definition removed :: "string \<Rightarrow> child" where
  "removed sel =
     Child (Str sel) context0 (Inr (Some sel)) (Some (Error ''no such frame'' sel)) (Inr True)
       (leaf sel) None"

text \<open>
  \<open>flatPage\<close>: a document with the frames \<^verbatim>\<open>#a\<close> and \<^verbatim>\<open>#b\<close>, of which \<^verbatim>\<open>#b\<close> was
  removed. \<open>nestedPage\<close>: a document with the frame \<^verbatim>\<open>#a\<close>, which holds the frames
  \<^verbatim>\<open>#b\<close> (removed) and \<^verbatim>\<open>#c\<close>.
\<close>

definition flatPage :: frame where
  "flatPage = Frame None [entered ''#a'' (leaf ''a''), removed ''#b''] (Inr (PartialResult ''top'')) None"

definition nestedPage :: frame where
  "nestedPage =
     Frame None
       [entered ''#a''
          (Frame None [removed ''#b'', entered ''#c'' (leaf ''c'')] (Inr (PartialResult ''a'')) None)]
       (Inr (PartialResult ''top'')) None"

text \<open>
  An environment in which nothing is rejected: the engine supports partial runs, the
  collector meets \<open>flatPage\<close>, the injector meets a document with one iframe, and the
  new window gets the handle \<^verbatim>\<open>tab-1\<close>. Its \<open>normalizeContext\<close> includes the whole
  document when no include selector was given and excludes the disabled frames; its
  \<open>logOrRethrowError\<close> logs a stale element and raises anything else anew.
  \<open>mergeFails\<close> is the same environment with an engine whose \<^verbatim>\<open>finishRun\<close> raises, and
  \<open>probeFails\<close> the one where the first injection is rejected.
\<close>

definition environment0 :: environment where
  "environment0 =
     \<lparr>normalizeContext =
        (\<lambda>incs excs disabled.
           \<lparr>contextInclude = (if incs = [] then None else Some incs),
            contextExclude = excs @ map (\<lambda>f. Arr [f, ''*'']) disabled\<rparr>),
      logOrRethrowError =
        (\<lambda>e. if errorName e = ''stale element reference'' then None else Some (newError (message e))),
      probe = Inr True,
      topFrame = flatPage,
      topDocument =
        Document None None None [] None
          [Iframe ''iframe-1'' (Inr True) (Document None None None [] None []) None],
      engineRun = (\<lambda>context opts. Inr (AxeResults ''whole document'')),
      getWindowHandleError = None,
      createWindowResult = Inr (Some ''tab-1''),
      switchToNewWindowError = None,
      urlError = None,
      engineFinishRun = (\<lambda>source partials opts. Inr (AxeResults ''merged'')),
      closeWindowError = None,
      switchBackError = None\<rparr>"

definition mergeFails :: environment where
  "mergeFails =
     environment0\<lparr>engineFinishRun := (\<lambda>source partials opts. Inl (Error ''Error'' ''finishRun failed''))\<rparr>"

definition probeFails :: environment where
  "probeFails = environment0\<lparr>probe := Inl (Error ''Error'' ''no such window'')\<rparr>"

text \<open>A store whose builder \<open>0\<close> is in legacy mode.\<close>

definition legacyHeap :: heap where
  "legacyHeap = snd (setLegacyMode None 0 heap0)"






chapter \<open>Properties\<close>

section \<open>Basic facts about the configuration methods\<close>

lemmas method_defs = disableFrame_def include'_def exclude_def options_def withRules_def
  withTags_def disableRules_def setLegacyMode_def setBuilder_def setRunOptions_def Let_def




text \<open>
  The object \<^verbatim>\<open>disableRules\<close> builds, in closed form: every listed rule id other than
  \<^verbatim>\<open>__proto__\<close> is an own property with \<^verbatim>\<open>enabled: false\<close>, and the prototype has been
  replaced exactly when \<^verbatim>\<open>__proto__\<close> is listed.
\<close>

lemma foldl_assignRule:
  "foldl (\<lambda>obj rule. assignRule rule False obj) obj ids =
     \<lparr>prototype = (if ''__proto__'' \<in> set ids then EnabledObject False else prototype obj),
      ownProperties = (\<lambda>k. if k \<in> set ids \<and> k \<noteq> ''__proto__'' then Some False else ownProperties obj k)\<rparr>"
proof (induction ids arbitrary: obj)
  case Nil
  show ?case by simp
next
  case (Cons a ids)
  show ?case
    unfolding foldl_Cons Cons
    by (auto simp add: assignRule_def fun_eq_iff)
qed

lemma foldl_assignRule_empty:
  "foldl (\<lambda>obj rule. assignRule rule False obj) emptyObject ids =
     \<lparr>prototype = (if ''__proto__'' \<in> set ids then EnabledObject False else ObjectPrototype),
      ownProperties = (\<lambda>k. if k \<in> set ids \<and> k \<noteq> ''__proto__'' then Some False else None)\<rparr>"
  by (simp add: foldl_assignRule emptyObject_def fun_eq_iff)

lemma disableRules_effect:
  "disableRules ds this h =
     (this, setRunOptions (option (builder h this))
              ((runOptions h (option (builder h this)))\<lparr>rules := Some
                 \<lparr>prototype = (if ''__proto__'' \<in> set (toArray ds) then EnabledObject False
                               else ObjectPrototype),
                  ownProperties = (\<lambda>k. if k \<in> set (toArray ds) \<and> k \<noteq> ''__proto__'' then Some False
                              else None)\<rparr>\<rparr>) h)"
  by (simp add: disableRules_def Let_def foldl_assignRule_empty)

section \<open>The composed script\<close>

text \<open>
  Claim C7. The composed script is, character by character, a line break and an
  indentation, the engine source, and then the configuration call: the call
  \<^verbatim>\<open>axe.configure\<close> on an object literal that ends with the branding entry, with the
  entry \<^verbatim>\<open>allowedOrigins: ['<unsafe_all_origins>'],\<close> before it when the legacy flag is
  false and with an empty line in its place when the flag is true. So in what follows
  the source, \<^verbatim>\<open>allowedOrigins\<close> and \<^verbatim>\<open><unsafe_all_origins>\<close> occur exactly when the
  legacy flag is false.
\<close>

theorem script_composition:
  "script b =
     ''\<newline>      '' @ axeSource b @
     (if legacyMode b
      then ''\<newline>      axe.configure({\<newline>        \<newline>        branding: { application: 'webdriverio' }\<newline>      })\<newline>      ''
      else ''\<newline>      axe.configure({\<newline>        allowedOrigins: ['<unsafe_all_origins>'],\<newline>        branding: { application: 'webdriverio' }\<newline>      })\<newline>      '')
   \<and> take 7 (script b) = ''\<newline>      ''
   \<and> take (length (axeSource b)) (drop 7 (script b)) = axeSource b
   \<and> sublist ''allowedOrigins: ['<unsafe_all_origins>']''
        (drop (7 + length (axeSource b)) (script b)) = (\<not> legacyMode b)
   \<and> sublist ''allowedOrigins'' (drop (7 + length (axeSource b)) (script b)) = (\<not> legacyMode b)
   \<and> sublist ''<unsafe_all_origins>'' (drop (7 + length (axeSource b)) (script b))
        = (\<not> legacyMode b)
   \<and> sublist ''branding: { application: 'webdriverio' }''
        (drop (7 + length (axeSource b)) (script b))"
proof -
  let ?legacy = "''\<newline>      axe.configure({\<newline>        \<newline>        branding: { application: 'webdriverio' }\<newline>      })\<newline>      ''"
  let ?partial = "''\<newline>      axe.configure({\<newline>        allowedOrigins: ['<unsafe_all_origins>'],\<newline>        branding: { application: 'webdriverio' }\<newline>      })\<newline>      ''"
  let ?config = "if legacyMode b then ?legacy else ?partial"
  have whole: "script b = ''\<newline>      '' @ axeSource b @ ?config"
    by (simp add: script_def)
  have start: "take 7 (script b) = ''\<newline>      ''"
    unfolding whole by simp
  have source: "take (length (axeSource b)) (drop 7 (script b)) = axeSource b"
    unfolding whole by simp
  have rest: "drop (7 + length (axeSource b)) (script b) = ?config"
  proof -
    have "drop (length (''\<newline>      '' @ axeSource b)) ((''\<newline>      '' @ axeSource b) @ ?config)
            = ?config"
      by (rule append_eq_conv_conj[THEN iffD1, THEN conjunct2, symmetric]) (rule refl)
    moreover have "length (''\<newline>      '' @ axeSource b) = 7 + length (axeSource b)"
      by simp
    ultimately show ?thesis
      unfolding whole by (simp only: append_assoc)
  qed
  have l1: "\<not> sublist ''allowedOrigins: ['<unsafe_all_origins>']'' ?legacy" by code_simp
  have l2: "\<not> sublist ''allowedOrigins'' ?legacy" by code_simp
  have l3: "\<not> sublist ''<unsafe_all_origins>'' ?legacy" by code_simp
  have l4: "sublist ''branding: { application: 'webdriverio' }'' ?legacy" by code_simp
  have p1: "sublist ''allowedOrigins: ['<unsafe_all_origins>']'' ?partial" by code_simp
  have p2: "sublist ''allowedOrigins'' ?partial" by code_simp
  have p3: "sublist ''<unsafe_all_origins>'' ?partial" by code_simp
  have p4: "sublist ''branding: { application: 'webdriverio' }'' ?partial" by code_simp
  have origins: "sublist ''allowedOrigins: ['<unsafe_all_origins>']''
        (drop (7 + length (axeSource b)) (script b)) = (\<not> legacyMode b)"
    unfolding rest using l1 p1 by (cases "legacyMode b") simp_all
  have key: "sublist ''allowedOrigins'' (drop (7 + length (axeSource b)) (script b))
        = (\<not> legacyMode b)"
    unfolding rest using l2 p2 by (cases "legacyMode b") simp_all
  have val: "sublist ''<unsafe_all_origins>'' (drop (7 + length (axeSource b)) (script b))
        = (\<not> legacyMode b)"
    unfolding rest using l3 p3 by (cases "legacyMode b") simp_all
  have branding: "sublist ''branding: { application: 'webdriverio' }''
        (drop (7 + length (axeSource b)) (script b))"
    unfolding rest using l4 p4 by (cases "legacyMode b") simp_all
  show ?thesis
    using whole start source origins key val branding by blast
qed

section \<open>Rule and tag selection\<close>


section \<open>The legacy flag and chaining\<close>

text \<open>
  Claim C10. \<^verbatim>\<open>setLegacyMode()\<close> sets the legacy flag, \<^verbatim>\<open>setLegacyMode(false)\<close> clears
  it, and \<^verbatim>\<open>setLegacyMode(v)\<close> makes it \<open>v\<close>. Each of the eight configuration methods
  returns its receiver and changes the store in one place: \<^verbatim>\<open>setLegacyMode\<close>,
  \<^verbatim>\<open>disableFrame\<close>, \<^verbatim>\<open>include\<close>, \<^verbatim>\<open>exclude\<close> and \<^verbatim>\<open>options\<close> write one field of
  the receiver (the flag, one more disabled-frame selector, one more include selector,
  one more exclude selector, the reference of the options object); \<^verbatim>\<open>withRules\<close>,
  \<^verbatim>\<open>withTags\<close> and \<^verbatim>\<open>disableRules\<close> write one field of the receiver's options object.
  Calls chained on the returned reference accumulate in the one builder: after
  \<^verbatim>\<open>setLegacyMode(arg).disableFrame(f).include(i).exclude(e).options(o).withRules(rs).withTags(ts).disableRules(ds)\<close>
  the receiver holds the flag, the three added selectors and the reference \<open>o\<close>, the
  object \<open>o\<close> holds the tag selection and the disabled rules, and nothing else in the
  store has changed.
\<close>

theorem setLegacyMode_and_chaining:
  "legacyMode (builder (snd (setLegacyMode None this h)) this)
   \<and> \<not> legacyMode (builder (snd (setLegacyMode (Some False) this h)) this)
   \<and> legacyMode (builder (snd (setLegacyMode (Some v) this h)) this) = v
   \<and> setLegacyMode arg this h =
       (this, h\<lparr>builder := (builder h)(this := (builder h this)
                  \<lparr>legacyMode := (case arg of None \<Rightarrow> True | Some v \<Rightarrow> v)\<rparr>)\<rparr>)
   \<and> disableFrame cssesc frameSel this h =
       (this, h\<lparr>builder := (builder h)(this := (builder h this)
                  \<lparr>disableFrameSelectors :=
                     disableFrameSelectors (builder h this) @ [cssesc frameSel]\<rparr>)\<rparr>)
   \<and> include' sel this h =
       (this, h\<lparr>builder := (builder h)(this := (builder h this)
                  \<lparr>includes' := includes' (builder h this) @ [Arr (toArray sel)]\<rparr>)\<rparr>)
   \<and> exclude sel this h =
       (this, h\<lparr>builder := (builder h)(this := (builder h this)
                  \<lparr>excludes := excludes (builder h this) @ [Arr (toArray sel)]\<rparr>)\<rparr>)
   \<and> options opts this h =
       (this, h\<lparr>builder := (builder h)(this := (builder h this)\<lparr>option := opts\<rparr>)\<rparr>)
   \<and> withRules rs this h =
       (this, h\<lparr>runOptions := (runOptions h)(option (builder h this) :=
                  (runOptions h (option (builder h this)))
                    \<lparr>runOnly := Some (RunOnlyObject ''rule'' (toArray rs))\<rparr>)\<rparr>)
   \<and> withTags ts this h =
       (this, h\<lparr>runOptions := (runOptions h)(option (builder h this) :=
                  (runOptions h (option (builder h this)))
                    \<lparr>runOnly := Some (RunOnlyObject ''tag'' (toArray ts))\<rparr>)\<rparr>)
   \<and> disableRules ds this h =
       (this, h\<lparr>runOptions := (runOptions h)(option (builder h this) :=
                  (runOptions h (option (builder h this)))
                    \<lparr>rules := Some
                       \<lparr>prototype = (if ''__proto__'' \<in> set (toArray ds) then EnabledObject False
                                     else ObjectPrototype),
                        ownProperties = (\<lambda>k. if k \<in> set (toArray ds) \<and> k \<noteq> ''__proto__''
                                    then Some False else None)\<rparr>\<rparr>)\<rparr>)
   \<and> (case setLegacyMode arg this h of (r1, h1) \<Rightarrow>
       case include' sel r1 h1 of (r2, h2) \<Rightarrow>
       case disableFrame cssesc frameSel r2 h2 of (r3, h3) \<Rightarrow>
       case withRules rs r3 h3 of (r4, h4) \<Rightarrow>
         r4 = this
         \<and> legacyMode (builder h4 this) = (case arg of None \<Rightarrow> True | Some v \<Rightarrow> v)
         \<and> includes' (builder h4 this) = includes' (builder h this) @ [Arr (toArray sel)]
         \<and> disableFrameSelectors (builder h4 this)
             = disableFrameSelectors (builder h this) @ [cssesc frameSel]
         \<and> excludes (builder h4 this) = excludes (builder h this)
         \<and> option (builder h4 this) = option (builder h this)
         \<and> runOnly (runOptions h4 (option (builder h this)))
             = Some (RunOnlyObject ''rule'' (toArray rs)))
   \<and> (case setLegacyMode arg this h of (r1, h1) \<Rightarrow>
       case disableFrame cssesc frameSel r1 h1 of (r2, h2) \<Rightarrow>
       case include' sel r2 h2 of (r3, h3) \<Rightarrow>
       case exclude sel' r3 h3 of (r4, h4) \<Rightarrow>
       case options opts r4 h4 of (r5, h5) \<Rightarrow>
       case withRules rs r5 h5 of (r6, h6) \<Rightarrow>
       case withTags ts r6 h6 of (r7, h7) \<Rightarrow>
       case disableRules ds r7 h7 of (r8, h8) \<Rightarrow>
         r8 = this
         \<and> builder h8 = (builder h)(this := (builder h this)
              \<lparr>legacyMode := (case arg of None \<Rightarrow> True | Some v \<Rightarrow> v),
               disableFrameSelectors :=
                 disableFrameSelectors (builder h this) @ [cssesc frameSel],
               includes' := includes' (builder h this) @ [Arr (toArray sel)],
               excludes := excludes (builder h this) @ [Arr (toArray sel')],
               option := opts\<rparr>)
         \<and> runOptions h8 = (runOptions h)(opts := (runOptions h opts)
              \<lparr>runOnly := Some (RunOnlyObject ''tag'' (toArray ts)),
               rules := Some
                 \<lparr>prototype = (if ''__proto__'' \<in> set (toArray ds) then EnabledObject False
                               else ObjectPrototype),
                  ownProperties = (\<lambda>k. if k \<in> set (toArray ds) \<and> k \<noteq> ''__proto__''
                              then Some False else None)\<rparr>\<rparr>))"
proof -
  have flag: "legacyMode (builder (snd (setLegacyMode None this h)) this)
   \<and> \<not> legacyMode (builder (snd (setLegacyMode (Some False) this h)) this)
   \<and> legacyMode (builder (snd (setLegacyMode (Some v) this h)) this) = v"
    by (simp add: method_defs)
  have m1: "setLegacyMode arg this h =
       (this, h\<lparr>builder := (builder h)(this := (builder h this)
                  \<lparr>legacyMode := (case arg of None \<Rightarrow> True | Some v \<Rightarrow> v)\<rparr>)\<rparr>)"
    by (simp add: method_defs)
  have m2: "disableFrame cssesc frameSel this h =
       (this, h\<lparr>builder := (builder h)(this := (builder h this)
                  \<lparr>disableFrameSelectors :=
                     disableFrameSelectors (builder h this) @ [cssesc frameSel]\<rparr>)\<rparr>)"
    by (simp add: method_defs)
  have m3: "include' sel this h =
       (this, h\<lparr>builder := (builder h)(this := (builder h this)
                  \<lparr>includes' := includes' (builder h this) @ [Arr (toArray sel)]\<rparr>)\<rparr>)"
    by (simp add: method_defs)
  have m4: "exclude sel this h =
       (this, h\<lparr>builder := (builder h)(this := (builder h this)
                  \<lparr>excludes := excludes (builder h this) @ [Arr (toArray sel)]\<rparr>)\<rparr>)"
    by (simp add: method_defs)
  have m5: "options opts this h =
       (this, h\<lparr>builder := (builder h)(this := (builder h this)\<lparr>option := opts\<rparr>)\<rparr>)"
    by (simp add: method_defs)
  have m6: "withRules rs this h =
       (this, h\<lparr>runOptions := (runOptions h)(option (builder h this) :=
                  (runOptions h (option (builder h this)))
                    \<lparr>runOnly := Some (RunOnlyObject ''rule'' (toArray rs))\<rparr>)\<rparr>)"
    by (simp add: method_defs)
  have m7: "withTags ts this h =
       (this, h\<lparr>runOptions := (runOptions h)(option (builder h this) :=
                  (runOptions h (option (builder h this)))
                    \<lparr>runOnly := Some (RunOnlyObject ''tag'' (toArray ts))\<rparr>)\<rparr>)"
    by (simp add: method_defs)
  have m8: "disableRules ds this h =
       (this, h\<lparr>runOptions := (runOptions h)(option (builder h this) :=
                  (runOptions h (option (builder h this)))
                    \<lparr>rules := Some
                       \<lparr>prototype = (if ''__proto__'' \<in> set (toArray ds) then EnabledObject False
                                     else ObjectPrototype),
                        ownProperties = (\<lambda>k. if k \<in> set (toArray ds) \<and> k \<noteq> ''__proto__''
                                    then Some False else None)\<rparr>\<rparr>)\<rparr>)"
    by (simp add: disableRules_effect setRunOptions_def)
  have four: "(case setLegacyMode arg this h of (r1, h1) \<Rightarrow>
       case include' sel r1 h1 of (r2, h2) \<Rightarrow>
       case disableFrame cssesc frameSel r2 h2 of (r3, h3) \<Rightarrow>
       case withRules rs r3 h3 of (r4, h4) \<Rightarrow>
         r4 = this
         \<and> legacyMode (builder h4 this) = (case arg of None \<Rightarrow> True | Some v \<Rightarrow> v)
         \<and> includes' (builder h4 this) = includes' (builder h this) @ [Arr (toArray sel)]
         \<and> disableFrameSelectors (builder h4 this)
             = disableFrameSelectors (builder h this) @ [cssesc frameSel]
         \<and> excludes (builder h4 this) = excludes (builder h this)
         \<and> option (builder h4 this) = option (builder h this)
         \<and> runOnly (runOptions h4 (option (builder h this)))
             = Some (RunOnlyObject ''rule'' (toArray rs)))"
    by (simp add: method_defs)
  have eight: "(case setLegacyMode arg this h of (r1, h1) \<Rightarrow>
       case disableFrame cssesc frameSel r1 h1 of (r2, h2) \<Rightarrow>
       case include' sel r2 h2 of (r3, h3) \<Rightarrow>
       case exclude sel' r3 h3 of (r4, h4) \<Rightarrow>
       case options opts r4 h4 of (r5, h5) \<Rightarrow>
       case withRules rs r5 h5 of (r6, h6) \<Rightarrow>
       case withTags ts r6 h6 of (r7, h7) \<Rightarrow>
       case disableRules ds r7 h7 of (r8, h8) \<Rightarrow>
         r8 = this
         \<and> builder h8 = (builder h)(this := (builder h this)
              \<lparr>legacyMode := (case arg of None \<Rightarrow> True | Some v \<Rightarrow> v),
               disableFrameSelectors :=
                 disableFrameSelectors (builder h this) @ [cssesc frameSel],
               includes' := includes' (builder h this) @ [Arr (toArray sel)],
               excludes := excludes (builder h this) @ [Arr (toArray sel')],
               option := opts\<rparr>)
         \<and> runOptions h8 = (runOptions h)(opts := (runOptions h opts)
              \<lparr>runOnly := Some (RunOnlyObject ''tag'' (toArray ts)),
               rules := Some
                 \<lparr>prototype = (if ''__proto__'' \<in> set (toArray ds) then EnabledObject False
                               else ObjectPrototype),
                  ownProperties = (\<lambda>k. if k \<in> set (toArray ds) \<and> k \<noteq> ''__proto__''
                              then Some False else None)\<rparr>\<rparr>))"
    by (simp add: disableRules_effect disableFrame_def include'_def exclude_def options_def
          withRules_def withTags_def setLegacyMode_def setBuilder_def setRunOptions_def Let_def)
  show ?thesis
    using flag m1 m2 m3 m4 m5 m6 m7 m8 four eight by blast
qed

section \<open>The collector, equation by equation\<close>

lemma switchToParentFrame_None:
  "switchToParentFrame None s = (Inr (), (send SwitchToParentFrame s)\<lparr>frames := parentFrame (frames s)\<rparr>)"
  by (simp add: switchToParentFrame_def send_def Let_def)

lemma switchToParentFrame_Some:
  "switchToParentFrame (Some e) s = (Inl e, send SwitchToParentFrame s)"
  by (simp add: switchToParentFrame_def Let_def)

lemma switchToParentFrame_fst:
  "fst (switchToParentFrame r s) = (case r of None \<Rightarrow> Inr () | Some e \<Rightarrow> Inl e)"
  by (simp add: switchToParentFrame_def Let_def split: option.splits)

lemma switchToFrame_None:
  "switchToFrame None el s = (Inr (), (send (SwitchToFrame el) s)\<lparr>frames := el # frames s\<rparr>)"
  by (simp add: switchToFrame_def send_def Let_def)

lemma switchToFrame_Some:
  "switchToFrame (Some e) el s = (Inl e, send (SwitchToFrame el) s)"
  by (simp add: switchToFrame_def Let_def)

lemma forFrameContexts_Cons:
  "forFrameContexts this h (c # cs) acc s =
     (case fst (tryFrameContext this h c s) of
        Inr pushed \<Rightarrow> forFrameContexts this h cs (acc @ pushed) (snd (tryFrameContext this h c s))
      | Inl caught \<Rightarrow>
          (case fst (switchToParentFrame (restoreError c) (snd (tryFrameContext this h c s))) of
             Inl e \<Rightarrow> (Inl e, snd (switchToParentFrame (restoreError c) (snd (tryFrameContext this h c s))))
           | Inr u \<Rightarrow> forFrameContexts this h cs (acc @ [None])
                       (snd (switchToParentFrame (restoreError c) (snd (tryFrameContext this h c s))))))"
  by (simp add: split_beta split: sum.splits)

lemma runPartialRecursive_Frame:
  "runPartialRecursive this h (Frame discovery children own leave) cx s =
     (case discovery of
        Some e \<Rightarrow> (Inl e, send (AxeGetFrameContext cx) s)
      | None \<Rightarrow>
          (case own of
             Inl e \<Rightarrow> (Inl e, send (AxeRunPartial cx (runOptions h (option (builder h this))))
                                  (send (AxeGetFrameContext cx) s))
           | Inr p \<Rightarrow>
               (case fst (forFrameContexts this h children [Some p]
                            (send (AxeRunPartial cx (runOptions h (option (builder h this))))
                               (send (AxeGetFrameContext cx) s))) of
                  Inl e \<Rightarrow> (Inl e, snd (forFrameContexts this h children [Some p]
                            (send (AxeRunPartial cx (runOptions h (option (builder h this))))
                               (send (AxeGetFrameContext cx) s))))
                | Inr partials \<Rightarrow>
                    (case fst (switchToParentFrame leave (snd (forFrameContexts this h children [Some p]
                            (send (AxeRunPartial cx (runOptions h (option (builder h this))))
                               (send (AxeGetFrameContext cx) s))))) of
                       Inl e \<Rightarrow> (Inl e, snd (switchToParentFrame leave (snd (forFrameContexts this h children [Some p]
                            (send (AxeRunPartial cx (runOptions h (option (builder h this))))
                               (send (AxeGetFrameContext cx) s))))))
                     | Inr u \<Rightarrow> (Inr partials, snd (switchToParentFrame leave (snd (forFrameContexts this h children [Some p]
                            (send (AxeRunPartial cx (runOptions h (option (builder h this))))
                               (send (AxeGetFrameContext cx) s))))))))))"
  by (simp add: split_beta axeGetFrameContext_def axeRunPartial_def
           split: sum.splits option.splits)

lemma tryFrameContext_Child:
  "tryFrameContext this h (Child selector cx lookup switch injection sub restore) s =
     (case lookup of
        Inl e \<Rightarrow> (Inl e, send (Find selector) s)
      | Inr None \<Rightarrow>
          (Inl (assertionError (''Expect frame of '' @ [CHR 0x22] @ selectorString selector @
                               [CHR 0x22] @ '' to be defined'')), send (Find selector) s)
      | Inr (Some el) \<Rightarrow>
          (case fst (switchToFrame switch el (send (Find selector) s)) of
             Inl e \<Rightarrow> (Inl e, snd (switchToFrame switch el (send (Find selector) s)))
           | Inr u \<Rightarrow>
               (case injection of
                  Inl e \<Rightarrow> (Inl e, send (AxeSourceInject (script (builder h this)))
                                      (snd (switchToFrame switch el (send (Find selector) s))))
                | Inr v \<Rightarrow>
                    runPartialRecursive this h sub cx
                       (send (AxeSourceInject (script (builder h this)))
                          (snd (switchToFrame switch el (send (Find selector) s)))))))"
  by (simp add: split_beta find_def axeSourceInject_def
           split: sum.splits option.splits)


section \<open>What the collector sends\<close>







lemma grows_refl: "grows P s s"
  by (simp add: grows_def logs_def)

lemma grows_trans: "grows P s s1 \<Longrightarrow> grows P s1 s2 \<Longrightarrow> grows P s s2"
  by (auto simp add: grows_def logs_def)


lemma grows_send: "P c \<Longrightarrow> grows P s (send c s)"
  by (simp add: grows_def logs_def send_def)

lemma grows_frames: "grows P s s' \<Longrightarrow> grows P s (s'\<lparr>frames := f\<rparr>)"
  by (simp add: grows_def logs_def)

lemma grows_switchToParentFrame:
  "P SwitchToParentFrame \<Longrightarrow> grows P s (snd (switchToParentFrame r s))"
  by (cases r) (simp_all add: switchToParentFrame_None switchToParentFrame_Some grows_send grows_frames)

lemma grows_switchToFrame:
  "P (SwitchToFrame el) \<Longrightarrow> grows P s (snd (switchToFrame r el s))"
  by (cases r) (simp_all add: switchToFrame_None switchToFrame_Some grows_send grows_frames)

lemma grows_forFrameContexts:
  assumes "\<And>c s. c \<in> set cs \<Longrightarrow> grows P s (snd (tryFrameContext this h c s))"
    and "P SwitchToParentFrame"
  shows "grows P s (snd (forFrameContexts this h cs acc s))"
  using assms(1)
proof (induction cs arbitrary: acc s)
  case Nil
  show ?case by (simp add: grows_refl)
next
  case (Cons c cs)
  let ?s1 = "snd (tryFrameContext this h c s)"
  let ?s2 = "snd (switchToParentFrame (restoreError c) ?s1)"
  have 1: "grows P s ?s1" using Cons.prems by simp
  have 2: "grows P s ?s2"
    using 1 by (rule grows_trans) (simp add: grows_switchToParentFrame assms(2))
  have rest: "grows P s' (snd (forFrameContexts this h cs acc' s'))" for acc' s'
    using Cons.IH Cons.prems by simp
  show ?case
    unfolding forFrameContexts_Cons
    using 1 2 rest by (auto split: sum.splits intro: grows_trans)
qed

lemma grows_collector:
  "\<forall>cx s. grows (collectorCall this h) s (snd (runPartialRecursive this h fr cx s))"
  "\<forall>s. grows (collectorCall this h) s (snd (tryFrameContext this h c s))"
proof (induction fr and c)
  case (Frame discovery children own leave)
  show ?case
  proof (intro allI)
    fix cx s
    let ?P = "collectorCall this h"
    let ?s1 = "send (AxeGetFrameContext cx) s"
    let ?s2 = "send (AxeRunPartial cx (runOptions h (option (builder h this)))) ?s1"
    have 1: "grows ?P s ?s1" by (simp add: grows_send)
    have 2: "grows ?P s ?s2" using 1 by (rule grows_trans) (simp add: grows_send)
    have loop: "grows ?P s' (snd (forFrameContexts this h children acc s'))" for acc s'
      by (rule grows_forFrameContexts) (use Frame in simp_all)
    have 3: "grows ?P s (snd (forFrameContexts this h children acc ?s2))" for acc
      using 2 loop by (rule grows_trans)
    have 4: "grows ?P s (snd (switchToParentFrame leave (snd (forFrameContexts this h children acc ?s2))))" for acc
      using 3[of acc] by (rule grows_trans) (simp add: grows_switchToParentFrame)
    show "grows ?P s (snd (runPartialRecursive this h (Frame discovery children own leave) cx s))"
      unfolding runPartialRecursive_Frame
      using 1 2 3 4 by (simp split: sum.splits option.splits)
  qed
next
  case (Child selector cx lookup switch injection sub restore)
  show ?case
  proof (intro allI)
    fix s
    let ?P = "collectorCall this h"
    let ?s1 = "send (Find selector) s"
    have 1: "grows ?P s ?s1" by (simp add: grows_send)
    have 2: "grows ?P s (snd (switchToFrame switch el ?s1))" for el
      using 1 by (rule grows_trans) (simp add: grows_switchToFrame)
    have 3: "grows ?P s (send (AxeSourceInject (script (builder h this))) (snd (switchToFrame switch el ?s1)))" for el
      using 2[of el] by (rule grows_trans) (simp add: grows_send)
    have 4: "grows ?P s (snd (runPartialRecursive this h sub cx
               (send (AxeSourceInject (script (builder h this))) (snd (switchToFrame switch el ?s1)))))" for el
      using 3[of el] by (rule grows_trans) (use Child in simp)
    show "grows ?P s (snd (tryFrameContext this h (Child selector cx lookup switch injection sub restore) s))"
      unfolding tryFrameContext_Child
      using 1 2 3 4 by (simp split: sum.splits option.splits)
  qed
qed


section \<open>The result does not depend on the session\<close>

lemma loop_independent:
  assumes "\<And>c s s'. c \<in> set cs \<Longrightarrow> fst (tryFrameContext this h c s) = fst (tryFrameContext this h c s')"
  shows "fst (forFrameContexts this h cs acc s) = fst (forFrameContexts this h cs acc s')"
  using assms
proof (induction cs arbitrary: acc s s')
  case Nil
  then show ?case by simp
next
  case (Cons c cs)
  have same: "fst (tryFrameContext this h c s) = fst (tryFrameContext this h c s')"
    using Cons.prems by simp
  have rest: "\<And>acc s s'. fst (forFrameContexts this h cs acc s) = fst (forFrameContexts this h cs acc s')"
    using Cons.IH Cons.prems by simp
  show ?case
    unfolding forFrameContexts_Cons same switchToParentFrame_fst
    by (auto split: sum.splits option.splits intro: rest)
qed

lemma independent_aux:
  "\<forall>cx s cx' s'. fst (runPartialRecursive this h fr cx s) = fst (runPartialRecursive this h fr cx' s')"
  "\<forall>s s'. fst (tryFrameContext this h c s) = fst (tryFrameContext this h c s')"
proof (induction fr and c)
  case (Frame discovery children own leave)
  have loop: "fst (forFrameContexts this h children acc s) = fst (forFrameContexts this h children acc s')"
    for acc s s'
    by (rule loop_independent) (use Frame in blast)
  show ?case
  proof (intro allI)
    fix cx s cx' s'
    let ?s1 = "send (AxeRunPartial cx (runOptions h (option (builder h this)))) (send (AxeGetFrameContext cx) s)"
    let ?s2 = "send (AxeRunPartial cx' (runOptions h (option (builder h this)))) (send (AxeGetFrameContext cx') s')"
    show "fst (runPartialRecursive this h (Frame discovery children own leave) cx s) =
          fst (runPartialRecursive this h (Frame discovery children own leave) cx' s')"
      unfolding runPartialRecursive_Frame
      by (simp add: loop[of _ ?s1 ?s2] switchToParentFrame_fst split: sum.splits option.splits)
  qed
next
  case (Child selector cx lookup switch injection sub restore)
  show ?case
  proof (intro allI)
    fix s s'
    have sub: "fst (runPartialRecursive this h sub cx s1) = fst (runPartialRecursive this h sub cx s2)"
      for s1 s2
      using Child by blast
    show "fst (tryFrameContext this h (Child selector cx lookup switch injection sub restore) s) =
          fst (tryFrameContext this h (Child selector cx lookup switch injection sub restore) s')"
      unfolding tryFrameContext_Child
      by (cases switch) (auto simp add: switchToFrame_None switchToFrame_Some
                          split: sum.splits option.splits intro: sub)
  qed
qed

lemma runPartialRecursive_independent:
  "fst (runPartialRecursive this h fr cx s) = fst (runPartialRecursive this h fr cx' s')"
  using independent_aux(1) by blast

lemma tryFrameContext_independent:
  "fst (tryFrameContext this h c s) = fst (tryFrameContext this h c s')"
  using independent_aux(2) by blast

lemma tryFrameContext_fst:
  "fst (tryFrameContext this h c s) =
     (case found c of
        Inl e \<Rightarrow> Inl e
      | Inr None \<Rightarrow>
          Inl (assertionError (''Expect frame of '' @ [CHR 0x22] @ selectorString (fcSelector c) @
                               [CHR 0x22] @ '' to be defined''))
      | Inr (Some el) \<Rightarrow>
          (case switchError c of
             Some e \<Rightarrow> Inl e
           | None \<Rightarrow> (case injected c of Inl e \<Rightarrow> Inl e | Inr v \<Rightarrow> subtree this h c t)))"
proof (cases c)
  case (Child selector cx lookup switch injection sub restore)
  show ?thesis
    unfolding Child tryFrameContext_Child subtree_def
    by (cases switch)
       (auto simp add: switchToFrame_None switchToFrame_Some split: sum.splits option.splits
             intro: runPartialRecursive_independent)
qed

lemma tryFrameContext_contribution:
  "(case fst (tryFrameContext this h c s) of Inr pushed \<Rightarrow> pushed | Inl caught \<Rightarrow> [None])
     = childSequence this h c t"
  unfolding tryFrameContext_fst[of _ _ _ _ t] childSequence_def scanFailed_def
  by (auto split: sum.splits option.splits)

lemma tryFrameContext_failed:
  "(\<exists>e. fst (tryFrameContext this h c s) = Inl e) = scanFailed this h c t"
  unfolding tryFrameContext_fst[of _ _ _ _ t] scanFailed_def
  by (auto split: sum.splits option.splits)


section \<open>The sequence the collector returns\<close>


lemma forFrameContexts_returns:
  "\<forall>c \<in> set cs. scanFailed this h c t \<longrightarrow> restoreError c = None \<Longrightarrow>
   fst (forFrameContexts this h cs acc s) = Inr (acc @ concat (map (\<lambda>c. childSequence this h c t) cs))"
proof (induction cs arbitrary: acc s)
  case Nil
  then show ?case by simp
next
  case (Cons c cs)
  show ?case
    using Cons.prems tryFrameContext_contribution[of this h c s t] tryFrameContext_failed[of this h c s t]
    unfolding forFrameContexts_Cons switchToParentFrame_fst
    by (auto split: sum.splits option.splits simp: Cons.IH)
qed

lemmas example_defs = session0_def heap0_def context0_def leaf_def entered_def removed_def
  flatPage_def nestedPage_def environment0_def mergeFails_def probeFails_def legacyHeap_def

lemmas client_defs = send_def switchToFrame_def switchToParentFrame_def find_def findAll_def
  isExisting_def execute_def getWindowHandle_def createWindow_def switchToWindow_def url_def
  closeWindow_def axeSourceInject_def axeGetFrameContext_def axeRunPartial_def axeFinishRun_def
  axeRunLegacy_def Let_def


section \<open>The browsing context after a failed child\<close>

text \<open>
  Claim C3, evaluated on \<open>nestedPage\<close>: the top document holds the frame \<^verbatim>\<open>#a\<close>, and
  \<^verbatim>\<open>#a\<close> holds the frames \<^verbatim>\<open>#b\<close> and \<^verbatim>\<open>#c\<close>; \<^verbatim>\<open>#b\<close> has been removed, so the switch
  into it is rejected while the context is still \<^verbatim>\<open>#a\<close>. The \<^verbatim>\<open>catch\<close> block then
  sends \<^verbatim>\<open>switchToParentFrame\<close>, which leaves \<^verbatim>\<open>#a\<close>: the log shows the lookup of the
  next sibling \<^verbatim>\<open>#c\<close> sent at the top level (\<open>[]\<close>) and not inside \<^verbatim>\<open>#a\<close>. The same
  step, seen from an invocation two frames deep: it returns with the context at the
  top level, above the frame \<^verbatim>\<open>#a\<close> of its caller.
\<close>

theorem removed_nested_frame_misplaces_context:
  "calls (snd (runPartialRecursive 0 heap0 nestedPage context0 session0)) =
     [([], AxeGetFrameContext context0),
      ([], AxeRunPartial context0 (runOptions heap0 1)),
      ([], Find (Str ''#a'')),
      ([], SwitchToFrame ''#a''),
      ([''#a''], AxeSourceInject (script (builder heap0 0))),
      ([''#a''], AxeGetFrameContext context0),
      ([''#a''], AxeRunPartial context0 (runOptions heap0 1)),
      ([''#a''], Find (Str ''#b'')),
      ([''#a''], SwitchToFrame ''#b''),
      ([''#a''], SwitchToParentFrame),
      ([], Find (Str ''#c'')),
      ([], SwitchToFrame ''#c''),
      ([''#c''], AxeSourceInject (script (builder heap0 0))),
      ([''#c''], AxeGetFrameContext context0),
      ([''#c''], AxeRunPartial context0 (runOptions heap0 1)),
      ([''#c''], SwitchToParentFrame),
      ([], SwitchToParentFrame),
      ([], SwitchToParentFrame)]
   \<and> frames (snd (forFrameContexts 0 heap0 [removed ''#b''] [Some (PartialResult ''a'')]
                     (session0\<lparr>frames := [''#a'']\<rparr>))) = []
   \<and> frames (snd (runPartialRecursive 0 heap0
                     (Frame None [removed ''#x''] (Inr (PartialResult ''b'')) None) context0
                     (session0\<lparr>frames := [''#b'', ''#a'']\<rparr>))) = []"
  by (simp add: example_defs client_defs)

section \<open>What the injector sends\<close>








section \<open>The finisher\<close>

lemma logs_frames: "logs P s s' \<Longrightarrow> logs P s (s'\<lparr>frames := f\<rparr>)"
  by (simp add: logs_def)








section \<open>The orchestrator, equation by equation\<close>

lemma analyzePromise_eq:
  "analyzePromise env this h s =
     (case probe env of
        Inl e \<Rightarrow> (Inl e, send (AxeSourceInject (axeSource (builder h this))) s)
      | Inr supported \<Rightarrow>
          if \<not> supported \<or> legacyMode (builder h this)
          then runLegacy env this h
                 (normalizeContext env (includes' (builder h this)) (excludes (builder h this))
                    (disableFrameSelectors (builder h this)))
                 (send (AxeSourceInject (axeSource (builder h this))) s)
          else
            (case runPartialRecursive this h (topFrame env)
                    (normalizeContext env (includes' (builder h this)) (excludes (builder h this))
                       (disableFrameSelectors (builder h this)))
                    (send (AxeSourceInject (axeSource (builder h this))) s) of
               (Inl e, s2) \<Rightarrow> (Inl e, s2)
             | (Inr partials, s2) \<Rightarrow>
                 (case finishRun env this h partials s2 of
                    (Inl caught, s3) \<Rightarrow> (Inl (newError (message caught @ troubleshooting)), s3)
                  | (Inr res, s3) \<Rightarrow> (Inr res, s3))))"
  unfolding analyzePromise_def axeSourceInject_def Let_def
  by (cases "probe env") simp_all





section \<open>The injector reaches the whole frame tree\<close>













section \<open>The sequence of an analysis\<close>



section \<open>Errors of child frames stay inside the collector\<close>

lemma forFrameContexts_raises:
  "fst (forFrameContexts this h cs acc s) = Inl e \<Longrightarrow>
   \<exists>c \<in> set cs. scanFailed this h c t \<and> restoreError c = Some e"
proof (induction cs arbitrary: acc s)
  case Nil
  then show ?case by simp
next
  case (Cons c cs)
  show ?case
    using Cons.prems tryFrameContext_failed[of this h c s t]
    unfolding forFrameContexts_Cons switchToParentFrame_fst
    by (auto split: sum.splits option.splits dest!: Cons.IH)
qed

lemma runPartialRecursive_fst:
  "fst (runPartialRecursive this h fr cx s) =
     (case getFrameContextError fr of
        Some e \<Rightarrow> Inl e
      | None \<Rightarrow>
          (case partialResult fr of
             Inl e \<Rightarrow> Inl e
           | Inr p \<Rightarrow>
               (case fst (forFrameContexts this h (frameContexts fr) [Some p] t) of
                  Inl e \<Rightarrow> Inl e
                | Inr partials \<Rightarrow>
                    (case leaveError fr of Some e \<Rightarrow> Inl e | None \<Rightarrow> Inr partials))))"
proof (cases fr)
  case (Frame discovery children own leave)
  let ?s2 = "send (AxeRunPartial cx (runOptions h (option (builder h this)))) (send (AxeGetFrameContext cx) s)"
  have loop: "fst (forFrameContexts this h children acc ?s2) = fst (forFrameContexts this h children acc t)"
    for acc
    by (rule loop_independent) (rule tryFrameContext_independent)
  show ?thesis
    unfolding Frame runPartialRecursive_Frame
    by (simp add: loop switchToParentFrame_fst split: sum.splits option.splits)
qed

text \<open>
  Claim C2. (1) When the discovery call and the partial run of a frame succeed and the
  \<^verbatim>\<open>switchToParentFrame\<close> commands of the invocation are accepted, the collector returns
  a sequence, whatever is raised while a child is processed: a child whose \<^verbatim>\<open>try\<close> block
  raises stands in it as one \<^verbatim>\<open>null\<close>. (2) The \<^verbatim>\<open>try\<close> block raises as soon as the
  lookup is rejected, the frame is not defined, the switch is rejected, the injection is
  rejected, or the recursive call raises. (3) An error that does leave the collector is
  never one of those: it is the error of the frame's own discovery call or partial run,
  or of a rejected \<^verbatim>\<open>switchToParentFrame\<close>. (4) A rejected first injection leaves
  \<^verbatim>\<open>analyzePromise\<close> as it is, and an error of \<open>finishRun\<close> leaves it with the pointer to
  the troubleshooting page appended; without a callback, \<^verbatim>\<open>analyze\<close> rejects with it.
\<close>

theorem child_errors_stay_in_collector:
  "(getFrameContextError fr = None \<and> partialResult fr = Inr p \<and> leaveError fr = None
      \<and> (\<forall>c \<in> set (frameContexts fr). scanFailed this h c t \<longrightarrow> restoreError c = None)
    \<longrightarrow> fst (runPartialRecursive this h fr cx s)
          = Inr (Some p # concat (map (\<lambda>c. if scanFailed this h c t then [None]
                                            else childSequence this h c t) (frameContexts fr))))
   \<and> ((\<exists>e. found c = Inl e) \<or> found c = Inr None \<or> (\<exists>e. switchError c = Some e)
         \<or> (\<exists>e. injected c = Inl e) \<or> (\<exists>e. subtree this h c t = Inl e)
       \<longrightarrow> scanFailed this h c t \<and> (\<exists>e. fst (tryFrameContext this h c s) = Inl e))
   \<and> (fst (runPartialRecursive this h fr cx s) = Inl e
       \<longrightarrow> getFrameContextError fr = Some e \<or> partialResult fr = Inl e \<or> leaveError fr = Some e
           \<or> (\<exists>c \<in> set (frameContexts fr). scanFailed this h c t \<and> restoreError c = Some e))
   \<and> (probe env = Inl e
       \<longrightarrow> fst (analyzePromise env this h s) = Inl e
           \<and> promise (fst (analyze env False this h s)) = Rejected e)
   \<and> (probe env = Inr True \<and> \<not> legacyMode (builder h this)
         \<and> runPartialRecursive this h (topFrame env)
               (normalizeContext env (includes' (builder h this)) (excludes (builder h this))
                  (disableFrameSelectors (builder h this)))
               (send (AxeSourceInject (axeSource (builder h this))) s) = (Inr partials, s2)
         \<and> fst (finishRun env this h partials s2) = Inl e
       \<longrightarrow> fst (analyzePromise env this h s) = Inl (newError (message e @ troubleshooting))
           \<and> promise (fst (analyze env False this h s)) = Rejected (newError (message e @ troubleshooting)))"
proof -
  have returns: "fst (runPartialRecursive this h fr cx s)
          = Inr (Some p # concat (map (\<lambda>c. if scanFailed this h c t then [None]
                                            else childSequence this h c t) (frameContexts fr)))"
    if "getFrameContextError fr = None" "partialResult fr = Inr p" "leaveError fr = None"
       "\<forall>c \<in> set (frameContexts fr). scanFailed this h c t \<longrightarrow> restoreError c = None"
  proof -
    have same: "(if scanFailed this h c t then [None] else childSequence this h c t) = childSequence this h c t"
      for c
      by (simp add: childSequence_def)
    show ?thesis
      unfolding runPartialRecursive_fst[of this h fr cx s t] same
      using that forFrameContexts_returns[of "frameContexts fr" this h t "[Some p]" t]
      by simp
  qed
  have raised: "scanFailed this h c t \<and> (\<exists>e. fst (tryFrameContext this h c s) = Inl e)"
    if "(\<exists>e. found c = Inl e) \<or> found c = Inr None \<or> (\<exists>e. switchError c = Some e)
         \<or> (\<exists>e. injected c = Inl e) \<or> (\<exists>e. subtree this h c t = Inl e)"
  proof -
    have "scanFailed this h c t"
      using that unfolding scanFailed_def by (auto split: sum.splits option.splits)
    then show ?thesis
      using tryFrameContext_failed[of this h c s t] by simp
  qed
  have escapes: "getFrameContextError fr = Some e \<or> partialResult fr = Inl e \<or> leaveError fr = Some e
           \<or> (\<exists>c \<in> set (frameContexts fr). scanFailed this h c t \<and> restoreError c = Some e)"
    if "fst (runPartialRecursive this h fr cx s) = Inl e"
    using that forFrameContexts_raises[of this h "frameContexts fr" _ t e t]
    unfolding runPartialRecursive_fst[of this h fr cx s t]
    by (auto split: sum.splits option.splits)
  have probe: "fst (analyzePromise env this h s) = Inl e
           \<and> promise (fst (analyze env False this h s)) = Rejected e"
    if "probe env = Inl e"
    using that by (simp add: analyze_def analyzePromise_eq)
  have finish: "fst (analyzePromise env this h s) = Inl (newError (message e @ troubleshooting))
           \<and> promise (fst (analyze env False this h s)) = Rejected (newError (message e @ troubleshooting))"
    if "probe env = Inr True" "\<not> legacyMode (builder h this)"
       "runPartialRecursive this h (topFrame env)
               (normalizeContext env (includes' (builder h this)) (excludes (builder h this))
                  (disableFrameSelectors (builder h this)))
               (send (AxeSourceInject (axeSource (builder h this))) s) = (Inr partials, s2)"
       "fst (finishRun env this h partials s2) = Inl e"
    using that by (simp add: analyze_def analyzePromise_eq split_beta)
  show ?thesis
    using returns raised escapes probe finish by blast
qed

theorem child_errors_stay_in_collector_witness:
  "fst (runPartialRecursive 0 heap0 flatPage context0 session0)
     = Inr [Some (PartialResult ''top''), Some (PartialResult ''a''), None]
   \<and> scanFailed 0 heap0 (removed ''#b'') session0
   \<and> fst (tryFrameContext 0 heap0 (removed ''#b'') session0) = Inl (Error ''no such frame'' ''#b'')
   \<and> fst (analyzePromise probeFails 0 heap0 session0) = Inl (Error ''Error'' ''no such window'')
   \<and> promise (fst (analyze probeFails False 0 heap0 session0)) = Rejected (Error ''Error'' ''no such window'')
   \<and> fst (analyzePromise mergeFails 0 heap0 session0)
       = Inl (newError (''finishRun failed'' @ troubleshooting))
   \<and> promise (fst (analyze mergeFails False 0 heap0 session0))
       = Rejected (newError (''finishRun failed'' @ troubleshooting))"
proof -
  note collector = child_errors_stay_in_collector[where this=0 and h=heap0 and t=session0
      and fr=flatPage and p="PartialResult ''top''" and cx=context0 and s=session0
      and c="removed ''#b''"]
  have a: "\<not> scanFailed 0 heap0 (entered ''#a'' (leaf ''a'')) session0"
    by (simp add: scanFailed_def subtree_def example_defs client_defs)
  have b: "scanFailed 0 heap0 (removed ''#b'') session0"
    using collector by (simp add: example_defs)
  have sa: "childSequence 0 heap0 (entered ''#a'' (leaf ''a'')) session0 = [Some (PartialResult ''a'')]"
    by (simp add: childSequence_def scanFailed_def subtree_def example_defs client_defs)
  have 1: "fst (runPartialRecursive 0 heap0 flatPage context0 session0)
     = Inr [Some (PartialResult ''top''), Some (PartialResult ''a''), None]"
    using collector a b sa by (simp add: flatPage_def removed_def entered_def)
  have 2: "fst (tryFrameContext 0 heap0 (removed ''#b'') session0) = Inl (Error ''no such frame'' ''#b'')"
    by (simp add: example_defs client_defs)
  have 3: "fst (analyzePromise probeFails 0 heap0 session0) = Inl (Error ''Error'' ''no such window'')
      \<and> promise (fst (analyze probeFails False 0 heap0 session0)) = Rejected (Error ''Error'' ''no such window'')"
    using child_errors_stay_in_collector[where env=probeFails and e="Error ''Error'' ''no such window''"
        and this=0 and h=heap0 and s=session0]
    by (simp add: example_defs)
  have collected: "runPartialRecursive 0 heap0 (topFrame mergeFails)
               (normalizeContext mergeFails (includes' (builder heap0 0)) (excludes (builder heap0 0))
                  (disableFrameSelectors (builder heap0 0)))
               (send (AxeSourceInject (axeSource (builder heap0 0))) session0)
             = (Inr [Some (PartialResult ''top''), Some (PartialResult ''a''), None],
                snd (runPartialRecursive 0 heap0 flatPage context0 (send (AxeSourceInject ''AXE'') session0)))"
    by (simp add: example_defs client_defs)
  have failed: "fst (finishRun mergeFails 0 heap0 [Some (PartialResult ''top''), Some (PartialResult ''a''), None]
                  (snd (runPartialRecursive 0 heap0 flatPage context0 (send (AxeSourceInject ''AXE'') session0))))
             = Inl (Error ''Error'' ''finishRun failed'')"
    by (simp add: finishRun_def enterNewWindow_def example_defs client_defs)
  have 4: "fst (analyzePromise mergeFails 0 heap0 session0)
       = Inl (newError (''finishRun failed'' @ troubleshooting))
     \<and> promise (fst (analyze mergeFails False 0 heap0 session0))
       = Rejected (newError (''finishRun failed'' @ troubleshooting))"
    using child_errors_stay_in_collector[where env=mergeFails and e="Error ''Error'' ''finishRun failed''"
        and this=0 and h=heap0 and s=session0
        and partials="[Some (PartialResult ''top''), Some (PartialResult ''a''), None]"
        and ?s2.0="snd (runPartialRecursive 0 heap0 flatPage context0 (send (AxeSourceInject ''AXE'') session0))"]
      collected failed
    by (simp add: mergeFails_def environment0_def heap0_def)
  show ?thesis
    using 1 b 2 3 4 by blast
qed

section \<open>The window after a failed merge\<close>

text \<open>
  Claim C4 fails on the code: \<open>finishRun\<close> has no \<^verbatim>\<open>finally\<close>, so an error of the merge
  step skips \<^verbatim>\<open>closeWindow\<close> and the switch back. With an engine whose \<^verbatim>\<open>finishRun\<close>
  raises, the analysis that started in the window \<^verbatim>\<open>main\<close> ends with the temporary
  window \<^verbatim>\<open>tab-1\<close> open and active, and neither cleanup command was sent.
\<close>

theorem merge_failure_leaves_temporary_window:
  "fst (analyzePromise mergeFails 0 heap0 session0)
     = Inl (newError (''finishRun failed'' @ troubleshooting))
   \<and> window session0 = ''main''
   \<and> window (snd (analyzePromise mergeFails 0 heap0 session0)) = ''tab-1''
   \<and> windows (snd (analyzePromise mergeFails 0 heap0 session0)) = [''main'', ''tab-1'']
   \<and> CloseWindow \<notin> snd ` set (calls (snd (analyzePromise mergeFails 0 heap0 session0)))
   \<and> SwitchToWindow ''main'' \<notin> snd ` set (calls (snd (analyzePromise mergeFails 0 heap0 session0)))"
  by (simp add: analyzePromise_def finishRun_def enterNewWindow_def example_defs client_defs
        newError_def)

lemma window_collector:
  "window (snd (runPartialRecursive this h fr cx s)) = window s
   \<and> windows (snd (runPartialRecursive this h fr cx s)) = windows s"
  using grows_collector(1)[of this h fr] by (simp add: grows_def)

lemma finishRun_merge_fails:
  assumes "getWindowHandleError env = None" "createWindowResult env = Inr (Some w)" "w \<noteq> []"
    and "switchToNewWindowError env = None" "urlError env = None"
    and "engineFinishRun env (axeSource (builder h this)) partials (runOptions h (option (builder h this))) = Inl e"
  shows "finishRun env this h partials s =
          (Inl e,
           s\<lparr>frames := [], window := w, windows := windows s @ [w],
             calls := calls s @
               [(frames s, GetWindowHandle), (frames s, CreateWindow ''tab''),
                (frames s, SwitchToWindow w), ([], Url ''about:blank''),
                ([], AxeFinishRun (axeSource (builder h this)) partials
                       (runOptions h (option (builder h this))))]\<rparr>)"
  using assms by (simp add: finishRun_def enterNewWindow_def client_defs)

lemma finishRun_merge_succeeds:
  assumes "getWindowHandleError env = None" "createWindowResult env = Inr (Some w)" "w \<noteq> []"
    and "switchToNewWindowError env = None" "urlError env = None"
    and "engineFinishRun env (axeSource (builder h this)) partials (runOptions h (option (builder h this))) = Inr res"
    and "closeWindowError env = None" "switchBackError env = None"
  shows "finishRun env this h partials s =
          (Inr res,
           s\<lparr>frames := [], window := window s, windows := removeAll w (windows s),
             calls := calls s @
               [(frames s, GetWindowHandle), (frames s, CreateWindow ''tab''),
                (frames s, SwitchToWindow w), ([], Url ''about:blank''),
                ([], AxeFinishRun (axeSource (builder h this)) partials
                       (runOptions h (option (builder h this)))),
                ([], CloseWindow), ([], SwitchToWindow (window s))]\<rparr>)"
  using assms by (simp add: finishRun_def enterNewWindow_def client_defs)

text \<open>
  Claim C4, amended. Let the collector have returned the partials, and let the window
  commands before the merge be accepted, the new window getting the handle \<open>w\<close>. If
  the merge step raises \<open>e\<close>, the error with the pointer to the troubleshooting page
  appended leaves \<^verbatim>\<open>analyze\<close> at once: the last call sent is the merge, so the temporary
  window is neither closed nor left, and it stays the active window. If the merge
  succeeds and \<^verbatim>\<open>closeWindow\<close> and the switch back are accepted, the temporary window
  is closed and the active window after the analysis is the one that was active before
  it.
\<close>

theorem finishRun_cleans_up_only_after_merge:
  fixes env this h s w
  defines "b \<equiv> builder h this"
  defines "cx \<equiv> normalizeContext env (includes' b) (excludes b) (disableFrameSelectors b)"
  defines "opts \<equiv> runOptions h (option b)"
  defines "s' \<equiv> snd (analyzePromise env this h s)"
  assumes probe: "probe env = Inr True" and partial: "\<not> legacyMode b"
    and collected: "runPartialRecursive this h (topFrame env) cx (send (AxeSourceInject (axeSource b)) s)
                      = (Inr partials, s2)"
    and opened: "getWindowHandleError env = None" "createWindowResult env = Inr (Some w)" "w \<noteq> []"
                "switchToNewWindowError env = None" "urlError env = None"
  shows "(engineFinishRun env (axeSource b) partials opts = Inl e \<longrightarrow>
            fst (analyzePromise env this h s) = Inl (newError (message e @ troubleshooting))
            \<and> window s' = w \<and> w \<in> set (windows s')
            \<and> sent s2 s' =
                 [(frames s2, GetWindowHandle), (frames s2, CreateWindow ''tab''),
                  (frames s2, SwitchToWindow w), ([], Url ''about:blank''),
                  ([], AxeFinishRun (axeSource b) partials opts)])
         \<and> (engineFinishRun env (axeSource b) partials opts = Inr res
              \<and> closeWindowError env = None \<and> switchBackError env = None \<longrightarrow>
            fst (analyzePromise env this h s) = Inr res
            \<and> window s' = window s \<and> windows s' = removeAll w (windows s)
            \<and> sent s2 s' =
                 [(frames s2, GetWindowHandle), (frames s2, CreateWindow ''tab''),
                  (frames s2, SwitchToWindow w), ([], Url ''about:blank''),
                  ([], AxeFinishRun (axeSource b) partials opts),
                  ([], CloseWindow), ([], SwitchToWindow (window s))])"
proof -
  have eq: "analyzePromise env this h s =
              (case finishRun env this h partials s2 of
                 (Inl caught, s3) \<Rightarrow> (Inl (newError (message caught @ troubleshooting)), s3)
               | (Inr res, s3) \<Rightarrow> (Inr res, s3))"
    unfolding analyzePromise_eq using probe partial collected by (simp add: b_def cx_def)
  have s2: "s2 = snd (runPartialRecursive this h (topFrame env) cx (send (AxeSourceInject (axeSource b)) s))"
    using collected by simp
  have win: "window s2 = window s \<and> windows s2 = windows s"
    unfolding s2 by (simp add: window_collector send_def)
  have failure: "fst (analyzePromise env this h s) = Inl (newError (message e @ troubleshooting))
            \<and> window s' = w \<and> w \<in> set (windows s')
            \<and> sent s2 s' =
                 [(frames s2, GetWindowHandle), (frames s2, CreateWindow ''tab''),
                  (frames s2, SwitchToWindow w), ([], Url ''about:blank''),
                  ([], AxeFinishRun (axeSource b) partials opts)]"
    if "engineFinishRun env (axeSource b) partials opts = Inl e"
    unfolding s'_def eq
    using finishRun_merge_fails[OF opened, of h this partials e s2] that
    by (simp add: sent_def b_def opts_def)
  have success: "fst (analyzePromise env this h s) = Inr res
            \<and> window s' = window s \<and> windows s' = removeAll w (windows s)
            \<and> sent s2 s' =
                 [(frames s2, GetWindowHandle), (frames s2, CreateWindow ''tab''),
                  (frames s2, SwitchToWindow w), ([], Url ''about:blank''),
                  ([], AxeFinishRun (axeSource b) partials opts),
                  ([], CloseWindow), ([], SwitchToWindow (window s))]"
    if "engineFinishRun env (axeSource b) partials opts = Inr res"
       "closeWindowError env = None" "switchBackError env = None"
    unfolding s'_def eq
    using finishRun_merge_succeeds[OF opened, of h this partials res s2] that win
    by (simp add: sent_def b_def opts_def)
  show ?thesis
    using failure success by blast
qed

theorem finishRun_cleans_up_only_after_merge_witness:
  "fst (analyzePromise mergeFails 0 heap0 session0) = Inl (newError (''finishRun failed'' @ troubleshooting))
   \<and> window (snd (analyzePromise mergeFails 0 heap0 session0)) = ''tab-1''
   \<and> ''tab-1'' \<in> set (windows (snd (analyzePromise mergeFails 0 heap0 session0)))
   \<and> fst (analyzePromise environment0 0 heap0 session0) = Inr (AxeResults ''merged'')
   \<and> window (snd (analyzePromise environment0 0 heap0 session0)) = ''main''
   \<and> windows (snd (analyzePromise environment0 0 heap0 session0)) = [''main'']"
proof -
  let ?partials = "[Some (PartialResult ''top''), Some (PartialResult ''a''), None]"
  let ?s2 = "snd (runPartialRecursive 0 heap0 flatPage context0 (send (AxeSourceInject ''AXE'') session0))"
  have collected: "runPartialRecursive 0 heap0 (topFrame env)
               (normalizeContext env (includes' (builder heap0 0)) (excludes (builder heap0 0))
                  (disableFrameSelectors (builder heap0 0)))
               (send (AxeSourceInject (axeSource (builder heap0 0))) session0)
             = (Inr ?partials, ?s2)"
    if "env = mergeFails \<or> env = environment0" for env
    using that by (auto simp add: example_defs client_defs)
  have fails: "fst (analyzePromise mergeFails 0 heap0 session0) = Inl (newError (''finishRun failed'' @ troubleshooting))
   \<and> window (snd (analyzePromise mergeFails 0 heap0 session0)) = ''tab-1''
   \<and> ''tab-1'' \<in> set (windows (snd (analyzePromise mergeFails 0 heap0 session0)))"
    using finishRun_cleans_up_only_after_merge[where env=mergeFails and this=0 and h=heap0
        and s=session0 and w="''tab-1''" and partials="?partials" and ?s2.0="?s2"
        and e="Error ''Error'' ''finishRun failed''", OF _ _ collected]
    by (simp add: mergeFails_def environment0_def heap0_def)
  have succeeds: "fst (analyzePromise environment0 0 heap0 session0) = Inr (AxeResults ''merged'')
   \<and> window (snd (analyzePromise environment0 0 heap0 session0)) = ''main''
   \<and> windows (snd (analyzePromise environment0 0 heap0 session0)) = [''main'']"
    using finishRun_cleans_up_only_after_merge[where env=environment0 and this=0 and h=heap0
        and s=session0 and w="''tab-1''" and partials="?partials" and ?s2.0="?s2"
        and res="AxeResults ''merged''", OF _ _ collected]
    by (simp add: environment0_def heap0_def session0_def)
  show ?thesis
    using fails succeeds by blast
qed

section \<open>The promise and the callback\<close>

text \<open>
  Claim C5 fails on the code in the callback mode: when the run fails, the \<^verbatim>\<open>catch\<close>
  handler calls the callback and calls neither \<^verbatim>\<open>resolve\<close> nor \<^verbatim>\<open>reject\<close>, so the
  returned promise is never settled; it does not resolve with no value.
\<close>

theorem callback_failure_leaves_promise_pending:
  "fst (analyzePromise probeFails 0 heap0 session0) = Inl (Error ''Error'' ''no such window'')
   \<and> callbackCalls (fst (analyze probeFails True 0 heap0 session0)) = [(Some ''no such window'', None)]
   \<and> promise (fst (analyze probeFails True 0 heap0 session0)) = Pending
   \<and> promise (fst (analyze probeFails True 0 heap0 session0)) \<noteq> Resolved None"
  by (simp add: analyze_def analyzePromise_def example_defs client_defs)

text \<open>
  Claim C5, amended. When the underlying run fails with \<open>err\<close>: with a callback, the
  callback receives \<^verbatim>\<open>(err.message, null)\<close> and the returned promise stays pending,
  neither resolved nor rejected; without a callback, the promise rejects with \<open>err\<close>
  and nothing else happens. When the run succeeds, the promise resolves with the results
  and the callback, if present, receives \<^verbatim>\<open>(null, results)\<close>.
\<close>

theorem analyze_outcomes:
  "(fst (analyzePromise env this h s) = Inl err \<longrightarrow>
       promise (fst (analyze env True this h s)) = Pending
     \<and> callbackCalls (fst (analyze env True this h s)) = [(Some (message err), None)]
     \<and> promise (fst (analyze env False this h s)) = Rejected err
     \<and> callbackCalls (fst (analyze env False this h s)) = [])
   \<and> (fst (analyzePromise env this h s) = Inr results \<longrightarrow>
       promise (fst (analyze env callback this h s)) = Resolved (Some results)
     \<and> callbackCalls (fst (analyze env True this h s)) = [(None, Some results)]
     \<and> callbackCalls (fst (analyze env False this h s)) = [])
   \<and> snd (analyze env callback this h s) = snd (analyzePromise env this h s)"
  by (auto simp add: analyze_def split_beta split: sum.splits)

theorem analyze_outcomes_witness:
  "promise (fst (analyze probeFails True 0 heap0 session0)) = Pending
   \<and> callbackCalls (fst (analyze probeFails True 0 heap0 session0)) = [(Some ''no such window'', None)]
   \<and> promise (fst (analyze probeFails False 0 heap0 session0)) = Rejected (Error ''Error'' ''no such window'')
   \<and> callbackCalls (fst (analyze probeFails False 0 heap0 session0)) = []
   \<and> promise (fst (analyze environment0 True 0 heap0 session0)) = Resolved (Some (AxeResults ''merged''))
   \<and> callbackCalls (fst (analyze environment0 True 0 heap0 session0)) = [(None, Some (AxeResults ''merged''))]
   \<and> promise (fst (analyze environment0 False 0 heap0 session0)) = Resolved (Some (AxeResults ''merged''))
   \<and> callbackCalls (fst (analyze environment0 False 0 heap0 session0)) = []"
proof -
  have failed: "fst (analyzePromise probeFails 0 heap0 session0) = Inl (Error ''Error'' ''no such window'')"
    by (simp add: analyzePromise_def example_defs client_defs)
  have merged: "fst (analyzePromise environment0 0 heap0 session0) = Inr (AxeResults ''merged'')"
    by (simp add: analyzePromise_def finishRun_def enterNewWindow_def example_defs client_defs)
  show ?thesis
    using analyze_outcomes[of probeFails 0 heap0 session0 "Error ''Error'' ''no such window''"]
      analyze_outcomes[of environment0 0 heap0 session0 _ "AxeResults ''merged''" True]
      analyze_outcomes[of environment0 0 heap0 session0 _ "AxeResults ''merged''" False]
      failed merged
    by simp
qed

section \<open>The options object\<close>





end
